theory Spec2Isabelle
  imports Complex_Main "HOL-Library.Word"
begin

unbundle bit_operations_syntax

section \<open>Clock readings\<close>

text \<open>
  The cache reads the clock with \<^verbatim>\<open>time.Now()\<close>, moves a reading forward with
  \<^verbatim>\<open>Time.Add\<close> and compares two readings with \<^verbatim>\<open>Time.After\<close>. Every reading the
  cache handles comes from \<^verbatim>\<open>time.Now()\<close>, so it carries Go's monotonic clock reading,
  and \<^verbatim>\<open>Add\<close> and \<^verbatim>\<open>After\<close> then work on that reading. A reading is modelled as
  the number of nanoseconds on the monotonic clock, a duration as a number of
  nanoseconds (Go's \<^verbatim>\<open>time.Duration\<close>, an \<^verbatim>\<open>int64\<close>). Both are integers without
  bound here: the only duration the program adds is one hour, and no clock reading is
  within one hour of the end of the \<^verbatim>\<open>int64\<close> range. Each call of \<^verbatim>\<open>time.Now()\<close>
  in the source is an explicit argument of the function that makes the call.
\<close>

type_synonym Time = int
type_synonym Duration = int

definition Second :: Duration where
  "Second = 1000000000"

definition Hour :: Duration where
  "Hour = 3600 * Second"

definition httpTimeout :: Duration where
  "httpTimeout = 5 * Second"

definition cacheExpiration :: Duration where
  "cacheExpiration = 1 * Hour"

definition Add :: "Time \<Rightarrow> Duration \<Rightarrow> Time" where
  "Add t d = t + d"

text \<open>\<^verbatim>\<open>t.After(u)\<close> reports whether \<open>t\<close> is strictly later than \<open>u\<close>.\<close>

definition After :: "Time \<Rightarrow> Time \<Rightarrow> bool" where
  "After t u \<longleftrightarrow> u < t"

section \<open>The TTL cache\<close>

text \<open>
  \<^verbatim>\<open>type Cache struct { mu sync.RWMutex; data map[string]interface{}; expiration map[string]time.Time }\<close>

  The two maps of the struct are the two fields of the record. The lock serialises the
  calls; one call is one function application here. The value type \<^verbatim>\<open>interface{}\<close> is
  the type parameter \<open>'v\<close>: the service below stores documents only, so that the
  type assertion it makes on a value it reads back cannot fail.
\<close>

record 'v Cache =
  data :: "string \<rightharpoonup> 'v"
  expiration :: "string \<rightharpoonup> Time"

definition NewCache :: "'v Cache" where
  "NewCache = \<lparr>data = Map.empty, expiration = Map.empty\<rparr>"

text \<open>
  \<^verbatim>\<open>Get\<close> returns the pair \<^verbatim>\<open>(value, found)\<close>: \<open>None\<close> is \<^verbatim>\<open>(nil, false)\<close> and
  \<open>Some v\<close> is \<^verbatim>\<open>(v, true)\<close>. The argument \<open>now\<close> is the reading of \<^verbatim>\<open>time.Now()\<close>
  inside the call.
\<close>

definition Cache_Get :: "'v Cache \<Rightarrow> Time \<Rightarrow> string \<Rightarrow> 'v option" where
  "Cache_Get c now key =
     (case expiration c key of
        None \<Rightarrow> None
      | Some expires \<Rightarrow> if After now expires then None else data c key)"

definition Cache_Set :: "'v Cache \<Rightarrow> Time \<Rightarrow> string \<Rightarrow> 'v \<Rightarrow> Duration \<Rightarrow> 'v Cache" where
  "Cache_Set c now key val ttl =
     c\<lparr>data := (data c)(key \<mapsto> val),
       expiration := (expiration c)(key \<mapsto> Add now ttl)\<rparr>"

text \<open>
  A cache in use is the empty cache after a sequence of \<^verbatim>\<open>Set\<close> calls, each with its
  clock reading, key, value and time to live.
\<close>

fun Cache_Sets :: "'v Cache \<Rightarrow> (Time \<times> string \<times> 'v \<times> Duration) list \<Rightarrow> 'v Cache" where
  "Cache_Sets c [] = c"
| "Cache_Sets c ((now, key, val, ttl) # ops) = Cache_Sets (Cache_Set c now key val ttl) ops"

definition set_keys :: "(Time \<times> string \<times> 'v \<times> Duration) list \<Rightarrow> string set" where
  "set_keys ops = (\<lambda>(now, key, val, ttl). key) ` set ops"

section \<open>Library functions the program calls\<close>

text \<open>
  The program is glue over Go's standard library. The library calls it makes are
  modelled here from the library's documented behaviour, each under the name the
  source calls it by.
\<close>

subsection \<open>strings.Replace\<close>

text \<open>
  \<^verbatim>\<open>strings.Replace(s, old, new, n)\<close> replaces the first \<open>n\<close> occurrences of \<open>old\<close> in
  \<open>s\<close> by \<open>new\<close>, all of them when \<open>n < 0\<close>. The program passes a one-byte
  pattern, so \<open>old\<close> is a character here.
\<close>

fun replaceN :: "string \<Rightarrow> char \<Rightarrow> string \<Rightarrow> int \<Rightarrow> string" where
  "replaceN [] old new n = []"
| "replaceN (c # cs) old new n =
     (if n = 0 then c # cs
      else if c = old then new @ replaceN cs old new (n - 1)
      else c # replaceN cs old new n)"

definition Replace :: "string \<Rightarrow> char \<Rightarrow> string \<Rightarrow> int \<Rightarrow> string" where
  "Replace s old new n = (if [old] = new \<or> n = 0 then s else replaceN s old new n)"

subsection \<open>strconv.ParseFloat\<close>

text \<open>
  A \<^verbatim>\<open>float64\<close> is its IEEE 754 binary64 bit pattern (\<^verbatim>\<open>math.Float64bits\<close>).
\<close>

type_synonym float64 = "64 word"

definition byte :: "char \<Rightarrow> nat" where
  "byte c = of_char c"

text \<open>\<^verbatim>\<open>lower(c) = c | ('x' - 'X')\<close>, on the byte's code.\<close>

definition lower :: "char \<Rightarrow> nat" where
  "lower c = byte c OR 32"

definition isDigit :: "char \<Rightarrow> bool" where
  "isDigit c \<longleftrightarrow> 48 \<le> byte c \<and> byte c \<le> 57"

definition isHexLetter :: "char \<Rightarrow> bool" where
  "isHexLetter c \<longleftrightarrow> 97 \<le> lower c \<and> lower c \<le> 102"

datatype NumErr = ErrSyntax | ErrRange

datatype NumError = NumError (Func: string) (Num: string) (Err: NumErr)

definition fnParseFloat :: string where
  "fnParseFloat = ''ParseFloat''"

definition syntaxError :: "string \<Rightarrow> string \<Rightarrow> NumError" where
  "syntaxError fn str = NumError fn str ErrSyntax"

definition rangeError :: "string \<Rightarrow> string \<Rightarrow> NumError" where
  "rangeError fn str = NumError fn str ErrRange"

text \<open>
  The special values: \<^verbatim>\<open>inf\<close>, \<^verbatim>\<open>infinity\<close> (with an optional sign) and \<^verbatim>\<open>nan\<close>,
  in any letter case. \<open>special\<close> returns the value and the length of the prefix it read.
\<close>

fun commonPrefixLenIgnoreCase :: "string \<Rightarrow> string \<Rightarrow> nat" where
  "commonPrefixLenIgnoreCase (c # s) (p # prefix) =
     (if (if 65 \<le> byte c \<and> byte c \<le> 90 then byte c + 32 else byte c) \<noteq> byte p then 0
      else Suc (commonPrefixLenIgnoreCase s prefix))"
| "commonPrefixLenIgnoreCase s prefix = 0"

definition float64_Inf :: "int \<Rightarrow> float64" where
  "float64_Inf sign = (if 0 \<le> sign then 0x7FF0000000000000 else 0xFFF0000000000000)"

definition float64_NaN :: float64 where
  "float64_NaN = 0x7FF8000000000001"

definition special_inf :: "string \<Rightarrow> int \<Rightarrow> nat \<Rightarrow> (float64 \<times> nat) option" where
  "special_inf s sign nsign =
     (let n = commonPrefixLenIgnoreCase s ''infinity'';
          n = (if 3 < n \<and> n < 8 then 3 else n)
      in if n = 3 \<or> n = 8 then Some (float64_Inf sign, nsign + n) else None)"

definition special :: "string \<Rightarrow> (float64 \<times> nat) option" where
  "special s =
     (case s of
        [] \<Rightarrow> None
      | c # s' \<Rightarrow>
          if c = CHR ''+'' then special_inf s' 1 1
          else if c = CHR ''-'' then special_inf s' (- 1) 1
          else if c = CHR ''i'' \<or> c = CHR ''I'' then special_inf s 1 0
          else if c = CHR ''n'' \<or> c = CHR ''N'' then
            (if commonPrefixLenIgnoreCase s ''nan'' = 3 then Some (float64_NaN, 3) else None)
          else None)"

text \<open>
  \<open>readFloat\<close> reads a decimal or hexadecimal number: sign, digits with at most one
  point and with underscores, exponent. The library keeps the first 19 digits of the
  mantissa and a flag for the rest, and reads the digits again when the flag matters;
  the model keeps every digit, which is the number the library rounds in the end.
\<close>

record scan =
  mantissa :: nat
  nd :: nat
  dp :: int
  sawdot :: bool
  sawdigits :: bool
  underscores :: bool

fun readDigits :: "nat \<Rightarrow> string \<Rightarrow> scan \<Rightarrow> scan \<times> string" where
  "readDigits base [] st = (st, [])"
| "readDigits base (c # cs) st =
     (if c = CHR ''_'' then readDigits base cs (st\<lparr>underscores := True\<rparr>)
      else if c = CHR ''.'' then
        (if sawdot st then (st, c # cs)
         else readDigits base cs (st\<lparr>sawdot := True, dp := int (nd st)\<rparr>))
      else if isDigit c then
        (if c = CHR ''0'' \<and> nd st = 0 then
           readDigits base cs (st\<lparr>sawdigits := True, dp := dp st - 1\<rparr>)
         else readDigits base cs
                (st\<lparr>sawdigits := True, nd := nd st + 1,
                    mantissa := mantissa st * base + (byte c - 48)\<rparr>))
      else if base = 16 \<and> isHexLetter c then
        readDigits base cs
          (st\<lparr>sawdigits := True, nd := nd st + 1,
              mantissa := mantissa st * 16 + (lower c - 97 + 10)\<rparr>)
      else (st, c # cs))"

fun readExponent :: "string \<Rightarrow> nat \<Rightarrow> bool \<Rightarrow> nat \<times> bool \<times> string" where
  "readExponent [] e us = (e, us, [])"
| "readExponent (c # cs) e us =
     (if isDigit c then readExponent cs (if e < 10000 then e * 10 + (byte c - 48) else e) us
      else if c = CHR ''_'' then readExponent cs e True
      else (e, us, c # cs))"

text \<open>
  \<open>underscoreOK\<close>: an underscore stands between two digits, or between a base prefix
  and a digit. \<open>saw\<close> is the last character class seen, as in the library.
\<close>

fun underscoreLoop :: "bool \<Rightarrow> string \<Rightarrow> char \<Rightarrow> bool" where
  "underscoreLoop hex [] saw = (saw \<noteq> CHR ''_'')"
| "underscoreLoop hex (c # cs) saw =
     (if isDigit c \<or> hex \<and> isHexLetter c then underscoreLoop hex cs CHR ''0''
      else if c = CHR ''_'' then
        (if saw \<noteq> CHR ''0'' then False else underscoreLoop hex cs CHR ''_'')
      else if saw = CHR ''_'' then False
      else underscoreLoop hex cs CHR ''!'')"

definition underscoreOK :: "string \<Rightarrow> bool" where
  "underscoreOK s0 =
     (let s = (case s0 of [] \<Rightarrow> s0
               | c # r \<Rightarrow> if c = CHR ''-'' \<or> c = CHR ''+'' then r else s0)
      in case s of
           c0 # c1 # r \<Rightarrow>
             if c0 = CHR ''0'' \<and> (lower c1 = 98 \<or> lower c1 = 111 \<or> lower c1 = 120)
             then underscoreLoop (lower c1 = 120) r CHR ''0''
             else underscoreLoop False s CHR ''^''
         | _ \<Rightarrow> underscoreLoop False s CHR ''^'')"

record readFloat_result =
  rf_mantissa :: nat
  rf_exp :: int
  rf_neg :: bool
  rf_hex :: bool
  rf_n :: nat

definition readFloat_finish ::
  "string \<Rightarrow> scan \<Rightarrow> bool \<Rightarrow> bool \<Rightarrow> int \<Rightarrow> bool \<Rightarrow> string \<Rightarrow> readFloat_result option" where
  "readFloat_finish s st neg hex dp' us rest =
     (let n = length s - length rest;
          ndMant = (if hex then nd st * 4 else nd st)
      in if us \<and> \<not> underscoreOK (take n s) then None
         else Some \<lparr>rf_mantissa = mantissa st,
                    rf_exp = (if mantissa st \<noteq> 0 then dp' - int ndMant else 0),
                    rf_neg = neg, rf_hex = hex, rf_n = n\<rparr>)"

definition readFloat :: "string \<Rightarrow> readFloat_result option" where
  "readFloat s =
     (case s of
        [] \<Rightarrow> None
      | c # _ \<Rightarrow>
        let neg = (c = CHR ''-'');
            s1 = (if c = CHR ''+'' \<or> c = CHR ''-'' then tl s else s);
            hex = (case s1 of c0 # c1 # _ # _ \<Rightarrow> c0 = CHR ''0'' \<and> lower c1 = 120 | _ \<Rightarrow> False);
            base = (if hex then 16 else 10);
            s2 = (if hex then drop 2 s1 else s1);
            (st, s3) = readDigits base s2
                         \<lparr>mantissa = 0, nd = 0, dp = 0, sawdot = False, sawdigits = False,
                          underscores = False\<rparr>
        in if \<not> sawdigits st then None
           else
             let dp1 = (if sawdot st then dp st else int (nd st));
                 dp2 = (if hex then dp1 * 4 else dp1)
             in case s3 of
                  [] \<Rightarrow> if hex then None
                        else readFloat_finish s st neg hex dp2 (underscores st) s3
                | c # s4 \<Rightarrow>
                    if lower c = (if hex then 112 else 101) then
                      (case s4 of
                         [] \<Rightarrow> None
                       | c' # s5 \<Rightarrow>
                           let esign = (if c' = CHR ''-'' then - 1 else 1);
                               s6 = (if c' = CHR ''+'' \<or> c' = CHR ''-'' then s5 else s4)
                           in (case s6 of
                                 [] \<Rightarrow> None
                               | c'' # _ \<Rightarrow>
                                   if \<not> isDigit c'' then None
                                   else
                                     let (e, us, rest) = readExponent s6 0 (underscores st)
                                     in readFloat_finish s st neg hex (dp2 + int e * esign) us rest))
                    else if hex then None
                    else readFloat_finish s st neg hex dp2 (underscores st) s3)"

text \<open>
  The value read is \<open>a / b\<close> with the sign \<open>neg\<close>. \<open>nearestFloat64\<close> is the float64
  nearest to it, ties to the even mantissa (IEEE 754 round to nearest even), with the
  flag that says the value is out of range (it rounds to an infinity).
\<close>

fun bitlen :: "nat \<Rightarrow> nat" where
  "bitlen n = (if n = 0 then 0 else Suc (bitlen (n div 2)))"

definition roundHalfEven :: "nat \<Rightarrow> nat \<Rightarrow> nat" where
  "roundHalfEven a b =
     (let q = a div b; r = a mod b
      in if 2 * r < b then q else if b < 2 * r then q + 1 else if even q then q else q + 1)"

text \<open>\<open>floorLog2 a b\<close> is the \<open>e\<close> with \<open>2 ^ e \<le> a / b < 2 ^ (e + 1)\<close>, for positive \<open>a\<close>, \<open>b\<close>.\<close>

definition floorLog2 :: "nat \<Rightarrow> nat \<Rightarrow> int" where
  "floorLog2 a b =
     (let e0 = int (bitlen a) - int (bitlen b)
      in if (if 0 \<le> e0 then b * 2 ^ nat e0 \<le> a else b \<le> a * 2 ^ nat (- e0))
         then e0 else e0 - 1)"

definition nearestFloat64 :: "bool \<Rightarrow> nat \<Rightarrow> nat \<Rightarrow> float64 \<times> bool" where
  "nearestFloat64 neg a b =
     (let signbit = (if neg then 2 ^ 63 else 0 :: nat) in
      if a = 0 then (of_nat signbit, False)
      else
        let e = max (floorLog2 a b) (- 1022);
            m = (if e \<le> 52 then roundHalfEven (a * 2 ^ nat (52 - e)) b
                 else roundHalfEven a (b * 2 ^ nat (e - 52)));
            bits = nat (e + 1022) * 2 ^ 52 + m
        in if 2047 * 2 ^ 52 \<le> bits then (of_nat (signbit + 2047 * 2 ^ 52), True)
           else (of_nat (signbit + bits), False))"

text \<open>
  \<^verbatim>\<open>strconv.ParseFloat(s, 64)\<close>: the whole of \<open>s\<close> must be read; a syntax error or a
  range error is a \<^verbatim>\<open>*NumError\<close> naming the function and the input.
\<close>

definition ParseFloat :: "string \<Rightarrow> NumError + float64" where
  "ParseFloat s =
     (case special s of
        Some (f, n) \<Rightarrow> if n \<noteq> length s then Inl (syntaxError fnParseFloat s) else Inr f
      | None \<Rightarrow>
         (case readFloat s of
            None \<Rightarrow> Inl (syntaxError fnParseFloat s)
          | Some r \<Rightarrow>
              let p = (if rf_hex r then 2 else 10 :: nat);
                  (f, ovf) = (if 0 \<le> rf_exp r
                              then nearestFloat64 (rf_neg r) (rf_mantissa r * p ^ nat (rf_exp r)) 1
                              else nearestFloat64 (rf_neg r) (rf_mantissa r) (p ^ nat (- rf_exp r)))
              in if rf_n r \<noteq> length s then Inl (syntaxError fnParseFloat s)
                 else if ovf then Inl (rangeError fnParseFloat s)
                 else Inr f))"

text \<open>
  The number a finite float64 stands for: sign, 11 bits of exponent, 52 bits of
  fraction.
\<close>

definition float64_val :: "float64 \<Rightarrow> rat" where
  "float64_val f =
     (let bits = unat f;
          sgn = (if 2 ^ 63 \<le> bits then - 1 else 1 :: rat);
          ex = (bits div 2 ^ 52) mod 2048;
          fr = bits mod 2 ^ 52
      in if ex = 0 then sgn * of_nat fr / 2 ^ 1074
         else if 1075 \<le> ex then sgn * of_nat ((2 ^ 52 + fr) * 2 ^ (ex - 1075))
         else sgn * of_nat (2 ^ 52 + fr) / 2 ^ (1075 - ex))"

subsection \<open>Wall-clock time: time.Time.AddDate and time.Time.Format\<close>

text \<open>
  \<^verbatim>\<open>GetUsdRatesHistory\<close> uses its reading of \<^verbatim>\<open>time.Now()\<close> through \<^verbatim>\<open>AddDate\<close>
  and \<^verbatim>\<open>Format\<close> with the layout \<^verbatim>\<open>"02.01.2006"\<close>. Both work on the wall clock of
  the reading in its location. \<^verbatim>\<open>AddDate\<close> takes the reading apart into its calendar
  date and its time of day in the location and hands them, with the days added, to
  \<^verbatim>\<open>time.Date\<close>, which looks for the instant that shows that date and that time of
  day in the location. \<^verbatim>\<open>Format\<close> prints the calendar date that the instant has in
  the location.

  A calendar date is a year, a month and a day of the proleptic Gregorian calendar.
\<close>

record civil =
  year :: int
  month :: int
  day :: int

definition isLeap :: "int \<Rightarrow> bool" where
  "isLeap y \<longleftrightarrow> y mod 4 = 0 \<and> (y mod 100 \<noteq> 0 \<or> y mod 400 = 0)"

definition daysIn :: "int \<Rightarrow> int \<Rightarrow> int" where
  "daysIn m y =
     (if m = 2 then (if isLeap y then 29 else 28)
      else if m = 4 \<or> m = 6 \<or> m = 9 \<or> m = 11 then 30
      else 31)"

definition validDate :: "civil \<Rightarrow> bool" where
  "validDate t \<longleftrightarrow> 1 \<le> month t \<and> month t \<le> 12 \<and> 1 \<le> day t \<and> day t \<le> daysIn (month t) (year t)"


text \<open>
  Package time counts days: here from 1 January 1970, which is day 0 (the library
  counts from an earlier day and shifts the count of seconds to the Unix epoch in the
  end). \<open>daysBeforeYear y\<close> is the number of days from day 0 to 1 January of the
  year \<open>y\<close>, \<open>daysBefore\<close> is the library's table of the days of a common year before
  each month, and \<open>daysFromCivil y m d\<close> is the day number that \<^verbatim>\<open>time.Date\<close> computes
  for the year \<open>y\<close>, the month \<open>m\<close> (from 1 to 12) and the day \<open>d\<close>, which need not
  be a day of that month: the count just goes on, forwards or backwards.
\<close>

definition daysInYear :: "int \<Rightarrow> int" where
  "daysInYear y = (if isLeap y then 366 else 365)"

definition daysBeforeYear :: "int \<Rightarrow> int" where
  "daysBeforeYear y =
     365 * (y - 1970) + ((y - 1) div 4 - (y - 1) div 100 + (y - 1) div 400) - 477"

definition daysBefore :: "int \<Rightarrow> int" where
  "daysBefore m = [0, 31, 59, 90, 120, 151, 181, 212, 243, 273, 304, 334, 365] ! nat m"

definition daysFromCivil :: "int \<Rightarrow> int \<Rightarrow> int \<Rightarrow> int" where
  "daysFromCivil y m d =
     daysBeforeYear y + daysBefore (m - 1) + (if isLeap y \<and> 3 \<le> m then 1 else 0) + (d - 1)"

text \<open>
  The way back, from a day number to its date, which is what \<^verbatim>\<open>Time.Date()\<close> returns:
  \<open>yearFrom\<close> finds the year and the day within it (counted from 0), \<open>monthFrom\<close> the
  month and the day of the month.
\<close>

function yearFrom :: "int \<Rightarrow> int \<Rightarrow> int \<times> int" where
  "yearFrom y r =
     (if r < 0 then yearFrom (y - 1) (r + daysInYear (y - 1))
      else if daysInYear y \<le> r then yearFrom (y + 1) (r - daysInYear y)
      else (y, r))"
  by pat_completeness auto
termination
  by (relation "measure (\<lambda>(y, r). if r < 0 then nat (- r) + 366 else nat r)")
     (auto simp: daysInYear_def split: if_splits)

function monthFrom :: "int \<Rightarrow> int \<Rightarrow> int \<Rightarrow> int \<times> int" where
  "monthFrom y m r =
     (if m < 12 \<and> daysIn m y \<le> r then monthFrom y (m + 1) (r - daysIn m y)
      else (m, r + 1))"
  by pat_completeness auto
termination
  by (relation "measure (\<lambda>(y, m, r). nat (12 - m))") auto

declare yearFrom.simps [simp del] monthFrom.simps [simp del]

definition civilFromDays :: "int \<Rightarrow> civil" where
  "civilFromDays n =
     (let (y, r) = yearFrom 1970 n; (m, d) = monthFrom y 1 r
      in \<lparr>year = y, month = m, day = d\<rparr>)"



text \<open>
  A location is its table of zones. \<^verbatim>\<open>Location.lookup(sec)\<close> returns the zone in use
  at the instant \<open>sec\<close> (in seconds since the Unix epoch, UTC): its offset from UTC in
  seconds and the instants at which it starts and ends. A location is modelled as
  that lookup.
\<close>

record zone =
  zoffset :: int
  zstart :: int
  zend :: int

type_synonym Location = "int \<Rightarrow> zone"

text \<open>
  A \<^verbatim>\<open>time.Time\<close> as \<^verbatim>\<open>AddDate\<close> and \<^verbatim>\<open>Format\<close> see it: the instant in seconds since
  the Unix epoch, the nanoseconds within the second (from 0 to 999999999) and the
  location. The integers are without bound: the library's \<^verbatim>\<open>int64\<close> seconds do not
  overflow within hundreds of billions of years of the epoch.
\<close>

record WallTime =
  unixSec :: int
  nsec :: int
  loc :: Location

definition UTC :: Location where
  "UTC u = \<lparr>zoffset = 0, zstart = - (2 ^ 63), zend = 2 ^ 63 - 1\<rparr>"


definition secondsPerDay :: int where
  "secondsPerDay = 86400"

text \<open>
  The seconds the wall clock of the location shows at the instant, counted from the
  Unix epoch; \<^verbatim>\<open>t.Date()\<close> and \<^verbatim>\<open>t.Clock()\<close> are the calendar date and the hour, minute
  and second of that count.
\<close>

definition localSeconds :: "WallTime \<Rightarrow> int" where
  "localSeconds t = unixSec t + zoffset (loc t (unixSec t))"

definition Time_Date :: "WallTime \<Rightarrow> civil" where
  "Time_Date t = civilFromDays (localSeconds t div secondsPerDay)"

definition Time_Clock :: "WallTime \<Rightarrow> int \<times> int \<times> int" where
  "Time_Clock t =
     (let s = localSeconds t mod secondsPerDay
      in (s div 3600, s mod 3600 div 60, s mod 60))"

text \<open>
  \<^verbatim>\<open>norm(hi, lo, base)\<close> of package time brings \<open>lo\<close> into the range from 0 to
  \<open>base - 1\<close> and carries into \<open>hi\<close>.
\<close>

definition time_norm :: "int \<Rightarrow> int \<Rightarrow> int \<Rightarrow> int \<times> int" where
  "time_norm hi lo base =
     (let (hi, lo) = (if lo < 0 then (let n = (- lo - 1) div base + 1 in (hi - n, lo + n * base))
                      else (hi, lo))
      in if base \<le> lo then (let n = lo div base in (hi + n, lo - n * base)) else (hi, lo))"

text \<open>
  \<^verbatim>\<open>time.Date(year, month, day, hour, min, sec, nsec, loc)\<close> normalises its arguments,
  counts the seconds \<open>unix\<close> that a clock on UTC would have at that date and time of
  day, and then looks for the offset of the location: it looks up the zone at \<open>unix\<close>
  and, when \<open>unix\<close> less that zone's offset is outside that zone, looks up the zone
  again there. For a date and time of day that the location skips (the hour that a
  change to daylight time leaves out) or shows twice, the library documents that the
  result is one of the two instants near the change, and which one is not said; the
  code is as here.
\<close>

definition time_Date ::
  "int \<Rightarrow> int \<Rightarrow> int \<Rightarrow> int \<Rightarrow> int \<Rightarrow> int \<Rightarrow> int \<Rightarrow> Location \<Rightarrow> WallTime" where
  "time_Date y mo d h mi s ns l =
     (let (y, m) = time_norm y (mo - 1) 12;
          mo = m + 1;
          (s, ns) = time_norm s ns 1000000000;
          (mi, s) = time_norm mi s 60;
          (h, mi) = time_norm h mi 60;
          (d, h) = time_norm d h 24;
          unix = daysFromCivil y mo d * secondsPerDay + h * 3600 + mi * 60 + s;
          z = l unix;
          offset = (if zoffset z \<noteq> 0 then
                      (let utc = unix - zoffset z
                       in if utc < zstart z \<or> zend z \<le> utc then zoffset (l utc) else zoffset z)
                    else 0)
      in \<lparr>unixSec = unix - offset, nsec = ns, loc = l\<rparr>)"

text \<open>
  \<^verbatim>\<open>t.AddDate(years, months, days)\<close>: \<^verbatim>\<open>time.Date\<close> of the date of \<open>t\<close> with the
  arguments added, at the time of day of \<open>t\<close>, in the location of \<open>t\<close>.
\<close>

definition AddDate :: "WallTime \<Rightarrow> int \<Rightarrow> int \<Rightarrow> int \<Rightarrow> WallTime" where
  "AddDate t years months days =
     (let c = Time_Date t; (h, mi, s) = Time_Clock t
      in time_Date (year c + years) (month c + months) (day c + days) h mi s (nsec t) (loc t))"

text \<open>
  \<^verbatim>\<open>appendInt(b, x, width)\<close> of package time appends \<open>x\<close> in decimal, padded with
  zeros to \<open>width\<close> digits, after a minus sign when \<open>x\<close> is negative.
\<close>

definition digitChar :: "nat \<Rightarrow> char" where
  "digitChar d = ''0123456789'' ! d"

fun utoa :: "nat \<Rightarrow> string" where
  "utoa u = (if u < 10 then [digitChar u] else utoa (u div 10) @ [digitChar (u mod 10)])"

declare utoa.simps [simp del]

definition appendInt :: "string \<Rightarrow> int \<Rightarrow> nat \<Rightarrow> string" where
  "appendInt b x width =
     (let ds = utoa (nat \<bar>x\<bar>)
      in b @ (if x < 0 then ''-'' else []) @ replicate (width - length ds) CHR ''0'' @ ds)"

text \<open>
  \<^verbatim>\<open>t.Format("02.01.2006")\<close>: the day of \<^verbatim>\<open>t.Date()\<close> in two digits, the month in two
  digits, the year in four, with dots between them.
\<close>

definition Format :: "WallTime \<Rightarrow> string" where
  "Format t =
     (let c = Time_Date t
      in appendInt (appendInt (appendInt [] (day c) 2 @ ''.'') (month c) 2 @ ''.'') (year c) 4)"


section \<open>The documents and the errors\<close>

text \<open>
  The structs the XML decodes into, and the point of the history the service returns.
  Fields of the same name in two structs are told apart by the struct's name
  (\<open>Valute.Value\<close>, \<open>Record.Value\<close>).
\<close>

record Valute =
  CharCode :: string
  Value :: string

record Record =
  Date :: string
  Value :: string

record ValCurs =
  Date :: string
  Valutes :: "Valute list"
  Records :: "Record list"

record RateHistory =
  Date :: string
  Rate :: float64

text \<open>
  The source builds its errors with \<^verbatim>\<open>fmt.Errorf\<close> and \<^verbatim>\<open>errors.New\<close>. An error is
  modelled by the place that builds it and what it wraps or prints:
  \<^item> \<^verbatim>\<open>"failed to create request: %w"\<close>, \<^verbatim>\<open>"failed to fetch data: %w"\<close> and
    \<^verbatim>\<open>"failed to parse XML: %w"\<close> wrap an error of the library (its text);
  \<^item> \<^verbatim>\<open>"unexpected status code: %d"\<close> prints the status code;
  \<^item> \<^verbatim>\<open>"USD rate not found"\<close>;
  \<^item> \<^verbatim>\<open>"failed to parse rate: %w"\<close> wraps the error of \<^verbatim>\<open>strconv.ParseFloat\<close>.
\<close>

datatype error =
    FailedToCreateRequest string
  | FailedToFetchData string
  | UnexpectedStatusCode int
  | FailedToParseXML string
  | UsdRateNotFound
  | FailedToParseRate NumError

section \<open>The rate parser\<close>

definition parseRate :: "string \<Rightarrow> error + float64" where
  "parseRate rateStr =
     (case ParseFloat (Replace rateStr CHR '','' ''.'' 1) of
        Inl err \<Rightarrow> Inl (FailedToParseRate err)
      | Inr rate \<Rightarrow> Inr rate)"

section \<open>The fetch pipeline\<close>

definition dailyRatesURL :: string where
  "dailyRatesURL = ''https://www.cbr.ru/scripts/XML_daily.asp''"

text \<open>\<^verbatim>\<open>fmt.Sprintf(dynamicRatesURL, startDate, endDate)\<close>, the format having two \<^verbatim>\<open>%s\<close>.\<close>

definition Sprintf_dynamicRatesURL :: "string \<Rightarrow> string \<Rightarrow> string" where
  "Sprintf_dynamicRatesURL startDate endDate =
     ''https://www.cbr.ru/scripts/XML_dynamic.asp?date_req1='' @ startDate
       @ ''&date_req2='' @ endDate @ ''&VAL_NM_RQ=R01235''"

definition StatusOK :: int where
  "StatusOK = 200"

text \<open>
  What the world outside does when \<^verbatim>\<open>fetchXML\<close> goes to the network:
  \<^item> \<^verbatim>\<open>http.NewRequestWithContext\<close> fails (no request is sent);
  \<^item> \<^verbatim>\<open>client.Do\<close> fails: the request was sent and no response came, which is
    also what the 5 second timeout of the context and of the client gives;
  \<^item> a response comes, with its status code and what decoding its body as XML
    (with the charset reader) yields: an error or a document.
\<close>

datatype http_outcome =
    NewRequestFailed string
  | DoFailed string
  | Response int "string + ValCurs"

record Client =
  Timeout :: Duration

record CurrencyService =
  client :: Client
  cache :: "ValCurs Cache"

definition NewCurrencyService :: CurrencyService where
  "NewCurrencyService = \<lparr>client = \<lparr>Timeout = httpTimeout\<rparr>, cache = NewCache\<rparr>"

text \<open>
  \<^verbatim>\<open>fetchXML\<close> returns its result, the service after the call and the requests it
  handed to \<^verbatim>\<open>client.Do\<close>, each by its URL. \<open>t_get\<close> and \<open>t_set\<close> are the readings of
  the clock inside \<^verbatim>\<open>cache.Get\<close> and \<^verbatim>\<open>cache.Set\<close>, \<open>net\<close> is what the network does
  if the call gets there.
\<close>

definition fetchXML ::
  "CurrencyService \<Rightarrow> string \<Rightarrow> Time \<Rightarrow> http_outcome \<Rightarrow> Time
     \<Rightarrow> (error + ValCurs) \<times> CurrencyService \<times> string list" where
  "fetchXML s url t_get net t_set =
     (case Cache_Get (cache s) t_get url of
        Some cachedData \<Rightarrow> (Inr cachedData, s, [])
      | None \<Rightarrow>
         (case net of
            NewRequestFailed err \<Rightarrow> (Inl (FailedToCreateRequest err), s, [])
          | DoFailed err \<Rightarrow> (Inl (FailedToFetchData err), s, [url])
          | Response StatusCode Body \<Rightarrow>
              if StatusCode \<noteq> StatusOK then (Inl (UnexpectedStatusCode StatusCode), s, [url])
              else
                (case Body of
                   Inl err \<Rightarrow> (Inl (FailedToParseXML err), s, [url])
                 | Inr valCurs \<Rightarrow>
                     (Inr valCurs,
                      s\<lparr>cache := Cache_Set (cache s) t_set url valCurs cacheExpiration\<rparr>,
                      [url]))))"

section \<open>The currency service\<close>

definition GetDailyRates ::
  "CurrencyService \<Rightarrow> Time \<Rightarrow> http_outcome \<Rightarrow> Time
     \<Rightarrow> (error + ValCurs) \<times> CurrencyService \<times> string list" where
  "GetDailyRates s t_get net t_set = fetchXML s dailyRatesURL t_get net t_set"

text \<open>The loop of \<^verbatim>\<open>GetUsdRate\<close> over \<^verbatim>\<open>valCurs.Valutes\<close>, and what follows it.\<close>

fun GetUsdRate_loop :: "Valute list \<Rightarrow> error + float64" where
  "GetUsdRate_loop [] = Inl UsdRateNotFound"
| "GetUsdRate_loop (valute # rest) =
     (if CharCode valute = ''USD'' then parseRate (Valute.Value valute)
      else GetUsdRate_loop rest)"

definition GetUsdRate ::
  "CurrencyService \<Rightarrow> Time \<Rightarrow> http_outcome \<Rightarrow> Time
     \<Rightarrow> (error + float64) \<times> CurrencyService \<times> string list" where
  "GetUsdRate s t_get net t_set =
     (case GetDailyRates s t_get net t_set of
        (Inl err, s', sent) \<Rightarrow> (Inl err, s', sent)
      | (Inr valCurs, s', sent) \<Rightarrow> (GetUsdRate_loop (Valutes valCurs), s', sent))"

definition GetCursDate ::
  "CurrencyService \<Rightarrow> Time \<Rightarrow> http_outcome \<Rightarrow> Time
     \<Rightarrow> (error + string) \<times> CurrencyService \<times> string list" where
  "GetCursDate s t_get net t_set =
     (case GetDailyRates s t_get net t_set of
        (Inl err, s', sent) \<Rightarrow> (Inl err, s', sent)
      | (Inr valCurs, s', sent) \<Rightarrow> (Inr (ValCurs.Date valCurs), s', sent))"

text \<open>
  The loop of \<^verbatim>\<open>GetUsdRatesHistory\<close> over \<^verbatim>\<open>valCurs.Records\<close>; \<open>history\<close> is the
  slice built so far, which starts as the nil slice (the empty list).
\<close>

fun GetUsdRatesHistory_loop :: "Record list \<Rightarrow> RateHistory list \<Rightarrow> RateHistory list" where
  "GetUsdRatesHistory_loop [] history = history"
| "GetUsdRatesHistory_loop (record # rest) history =
     (case parseRate (Record.Value record) of
        Inl err \<Rightarrow> GetUsdRatesHistory_loop rest history
      | Inr rate \<Rightarrow>
          GetUsdRatesHistory_loop rest
            (history @ [\<lparr>RateHistory.Date = Record.Date record, Rate = rate\<rparr>]))"

text \<open>
  One turn of that loop: the point it appends for a record, or \<open>None\<close> when the
  rate does not parse and the loop goes on to the next record.
\<close>

definition historyPoint :: "Record \<Rightarrow> RateHistory option" where
  "historyPoint r =
     (case parseRate (Record.Value r) of
        Inl err \<Rightarrow> None
      | Inr rate \<Rightarrow> Some \<lparr>RateHistory.Date = Record.Date r, Rate = rate\<rparr>)"

text \<open>The URL \<^verbatim>\<open>GetUsdRatesHistory\<close> builds from its reading \<open>now\<close> of the clock.\<close>

definition historyURL :: "WallTime \<Rightarrow> string" where
  "historyURL now =
     (let startDate = Format (AddDate now 0 0 (- 7));
          endDate = Format now
      in Sprintf_dynamicRatesURL startDate endDate)"

definition GetUsdRatesHistory ::
  "CurrencyService \<Rightarrow> WallTime \<Rightarrow> Time \<Rightarrow> http_outcome \<Rightarrow> Time
     \<Rightarrow> (error + RateHistory list) \<times> CurrencyService \<times> string list" where
  "GetUsdRatesHistory s now t_get net t_set =
     (case fetchXML s (historyURL now) t_get net t_set of
        (Inl err, s', sent) \<Rightarrow> (Inl err, s', sent)
      | (Inr valCurs, s', sent) \<Rightarrow>
          (Inr (GetUsdRatesHistory_loop (Records valCurs) []), s', sent))"

section \<open>The example documents of the specification\<close>

definition example_daily :: ValCurs where
  "example_daily =
     \<lparr>ValCurs.Date = ''02.01.2024'',
      Valutes = [\<lparr>CharCode = ''EUR'', Valute.Value = ''100,00''\<rparr>,
                 \<lparr>CharCode = ''USD'', Valute.Value = ''91,23''\<rparr>],
      Records = []\<rparr>"

definition example_history :: ValCurs where
  "example_history =
     \<lparr>ValCurs.Date = [],
      Valutes = [],
      Records = [\<lparr>Record.Date = ''01.01.2024'', Record.Value = ''91,00''\<rparr>,
                 \<lparr>Record.Date = ''02.01.2024'', Record.Value = ''bad''\<rparr>,
                 \<lparr>Record.Date = ''03.01.2024'', Record.Value = ''92,50''\<rparr>]\<rparr>"

text \<open>
  Two readings of the wall clock: 4 January 2024, 00:00:00, on UTC; and
  17 March 2024, 00:30:00, in Havana (04:30:00 UTC), one week after the night in
  which the clocks there went from 00:00 to 01:00.
\<close>

definition example_now :: WallTime where
  "example_now = \<lparr>unixSec = 1704326400, nsec = 0, loc = UTC\<rparr>"


section \<open>Decimal numerals\<close>

text \<open>
  The strings of decimal digits and the natural number such a string writes, for
  the statements on what \<^verbatim>\<open>parseRate\<close> returns for a decimal numeral. \<open>scan0\<close> is the
  state in which \<open>readFloat\<close> starts \<open>readDigits\<close>, and \<open>scan_inv\<close> what holds of the
  state while only digits and the point are read: no digit is counted yet exactly
  when the mantissa is still 0.
\<close>

definition decimalDigits :: "char set" where
  "decimalDigits = set ''0123456789''"

definition decimalValue :: "string \<Rightarrow> nat" where
  "decimalValue ds = foldl (\<lambda>v c. v * 10 + (byte c - 48)) 0 ds"

definition scan0 :: scan where
  "scan0 = \<lparr>mantissa = 0, nd = 0, dp = 0, sawdot = False, sawdigits = False, underscores = False\<rparr>"

definition scan_inv :: "scan \<Rightarrow> bool" where
  "scan_inv st \<longleftrightarrow> (nd st = 0) = (mantissa st = 0)"

section \<open>Properties of the cache\<close>

lemma Cache_Sets_append:
  "Cache_Sets c (ops @ ops') = Cache_Sets (Cache_Sets c ops) ops'"
  by (induction c ops rule: Cache_Sets.induct) simp_all

lemma dom_expiration_Cache_Sets:
  "dom (expiration (Cache_Sets c ops)) = dom (expiration c) \<union> set_keys ops"
  by (induction c ops rule: Cache_Sets.induct) (auto simp: Cache_Set_def set_keys_def)

lemma dom_data_Cache_Sets:
  "dom (data (Cache_Sets c ops)) = dom (data c) \<union> set_keys ops"
  by (induction c ops rule: Cache_Sets.induct) (auto simp: Cache_Set_def set_keys_def)

lemma dom_data_expiration:
  "dom (data (Cache_Sets NewCache ops)) = dom (expiration (Cache_Sets NewCache ops))"
  by (simp add: dom_expiration_Cache_Sets dom_data_Cache_Sets NewCache_def)

text \<open>
  C3. For every key, value and positive time to live, \<^verbatim>\<open>Set\<close> stores the value under
  the key and the instant \<open>now + ttl\<close> as its expiration, whatever the cache held for
  the key before, and leaves every other key as it was; a \<^verbatim>\<open>Get\<close> of the key whose
  clock reading is not later than that instant (in particular one that reads the same
  instant as the \<^verbatim>\<open>Set\<close>) returns the value with \<^verbatim>\<open>found = true\<close>.
\<close>

theorem Cache_Set_then_Get:
  assumes "0 < ttl"
  shows "data (Cache_Set c now k v ttl) = (data c)(k \<mapsto> v)
       \<and> expiration (Cache_Set c now k v ttl) = (expiration c)(k \<mapsto> now + ttl)
       \<and> Cache_Get (Cache_Set c now k v ttl) now k = Some v
       \<and> (\<forall>t. t \<le> now + ttl \<longrightarrow> Cache_Get (Cache_Set c now k v ttl) t k = Some v)"
  using assms by (simp add: Cache_Set_def Cache_Get_def Add_def After_def)

theorem Cache_Set_then_Get_witness:
  "(0::int) < 5
   \<and> Cache_Get (Cache_Set (Cache_Set NewCache 0 ''k'' (1::nat) 7) 100 ''k'' 2 5) 100 ''k'' = Some 2
   \<and> Cache_Get (Cache_Set (Cache_Set NewCache 0 ''k'' (1::nat) 7) 100 ''k'' 2 5) 105 ''k'' = Some 2"
proof -
  have pos: "(0::int) < 5" by simp
  note h = Cache_Set_then_Get [OF pos, of "Cache_Set NewCache 0 ''k'' (1::nat) 7" 100 "''k''" 2]
  from h have "Cache_Get (Cache_Set (Cache_Set NewCache 0 ''k'' (1::nat) 7) 100 ''k'' 2 5) 100 ''k'' = Some 2"
    by blast
  moreover from h have "Cache_Get (Cache_Set (Cache_Set NewCache 0 ''k'' (1::nat) 7) 100 ''k'' 2 5) 105 ''k'' = Some 2"
    by simp
  ultimately show ?thesis by simp
qed

lemma Cache_Get_Cache_Sets:
  "Cache_Get (Cache_Sets NewCache ops) now key = None \<longleftrightarrow>
     key \<notin> set_keys ops \<or> (\<exists>e. expiration (Cache_Sets NewCache ops) key = Some e \<and> e < now)"
proof -
  let ?c = "Cache_Sets NewCache ops"
  have d: "dom (data ?c) = dom (expiration ?c)" by (rule dom_data_expiration)
  have k: "dom (expiration ?c) = set_keys ops"
    by (simp add: dom_expiration_Cache_Sets NewCache_def)
  show ?thesis
  proof (cases "expiration ?c key")
    case None
    with k show ?thesis by (auto simp: Cache_Get_def)
  next
    case (Some e)
    with k have "key \<in> set_keys ops" by auto
    moreover from Some d have "data ?c key \<noteq> None" by (metis domIff option.distinct(1))
    ultimately show ?thesis using Some by (auto simp: Cache_Get_def After_def)
  qed
qed

text \<open>
  C2, as the claim states it, fails at the expiration instant itself: the test of
  \<^verbatim>\<open>Get\<close> is \<^verbatim>\<open>time.Now().After(exp)\<close>, which is false when the two readings are
  equal. A value set at reading 0 with a time to live of 10 expires at 10, and a
  \<^verbatim>\<open>Get\<close> that reads the clock at 10 still finds it.
\<close>

theorem Cache_Get_at_expiry_counterexample:
  "expiration (Cache_Set NewCache 0 ''k'' (7::nat) 10) ''k'' = Some 10
   \<and> Cache_Get (Cache_Set NewCache 0 ''k'' (7::nat) 10) 10 ''k'' = Some 7"
  by (simp add: Cache_Get_def Cache_Set_def NewCache_def Add_def After_def)

text \<open>
  C2, amended. For a cache built from the empty cache by any sequence of \<^verbatim>\<open>Set\<close>
  calls, \<^verbatim>\<open>Get(key)\<close> returns \<^verbatim>\<open>found = false\<close>, and no value, exactly when the key
  was never set or the clock reading of the \<^verbatim>\<open>Get\<close> is strictly after the stored
  expiration instant. At every reading up to and including the expiration instant the
  \<^verbatim>\<open>Get\<close> finds the stored value.
\<close>

theorem Cache_Get_not_found_iff:
  "(Cache_Get (Cache_Sets NewCache ops) now key = None \<longleftrightarrow>
      key \<notin> set_keys ops
      \<or> (\<exists>e. expiration (Cache_Sets NewCache ops) key = Some e \<and> e < now))
   \<and> (\<forall>e. expiration (Cache_Sets NewCache ops) key = Some e \<and> now \<le> e \<longrightarrow>
         Cache_Get (Cache_Sets NewCache ops) now key = data (Cache_Sets NewCache ops) key
         \<and> data (Cache_Sets NewCache ops) key \<noteq> None)"
proof -
  let ?c = "Cache_Sets NewCache ops"
  have "Cache_Get ?c now key = data ?c key \<and> data ?c key \<noteq> None"
    if e: "expiration ?c key = Some e" "now \<le> e" for e
  proof -
    from e have "Cache_Get ?c now key = data ?c key"
      by (simp add: Cache_Get_def After_def)
    moreover have "dom (expiration ?c) = set_keys ops"
      by (simp add: dom_expiration_Cache_Sets NewCache_def)
    with e have "key \<in> set_keys ops" by auto
    with e have "Cache_Get ?c now key \<noteq> None"
      using Cache_Get_Cache_Sets [of ops now key] by auto
    ultimately show ?thesis by simp
  qed
  then show ?thesis using Cache_Get_Cache_Sets [of ops now key] by blast
qed

theorem Cache_Get_not_found_iff_witness:
  "Cache_Get (Cache_Sets NewCache [(0, ''k'', 7::nat, 10)]) 5 ''j'' = None
   \<and> Cache_Get (Cache_Sets NewCache [(0, ''k'', 7::nat, 10)]) 11 ''k'' = None
   \<and> Cache_Get (Cache_Sets NewCache [(0, ''k'', 7::nat, 10)]) 10 ''k'' = Some 7"
proof -
  let ?ops = "[(0, ''k'', 7::nat, 10)] :: (Time \<times> string \<times> nat \<times> Duration) list"
  have e: "expiration (Cache_Sets NewCache ?ops) ''k'' = Some 10"
    and d: "data (Cache_Sets NewCache ?ops) ''k'' = Some 7"
    and k: "set_keys ?ops = {''k''}"
    by (simp_all add: Cache_Set_def NewCache_def Add_def set_keys_def)
  have "Cache_Get (Cache_Sets NewCache ?ops) 5 ''j'' = None"
    using Cache_Get_not_found_iff [of ?ops 5 "''j''"] k by simp
  moreover have "Cache_Get (Cache_Sets NewCache ?ops) 11 ''k'' = None"
    using Cache_Get_not_found_iff [of ?ops 11 "''k''"] e by simp
  moreover have "Cache_Get (Cache_Sets NewCache ?ops) 10 ''k'' = Some 7"
    using Cache_Get_not_found_iff [of ?ops 10 "''k''"] e d by simp
  ultimately show ?thesis by simp
qed

section \<open>Properties of the fetch pipeline\<close>

lemma fetchXML_hit:
  "Cache_Get (cache s) t_get url = Some doc \<Longrightarrow>
   fetchXML s url t_get net t_set = (Inr doc, s, [])"
  by (simp add: fetchXML_def)

lemma fetchXML_miss:
  "Cache_Get (cache s) t_get url = None \<Longrightarrow>
   fetchXML s url t_get net t_set =
     (case net of
        NewRequestFailed err \<Rightarrow> (Inl (FailedToCreateRequest err), s, [])
      | DoFailed err \<Rightarrow> (Inl (FailedToFetchData err), s, [url])
      | Response code body \<Rightarrow>
          if code \<noteq> 200 then (Inl (UnexpectedStatusCode code), s, [url])
          else
            (case body of
               Inl err \<Rightarrow> (Inl (FailedToParseXML err), s, [url])
             | Inr valCurs \<Rightarrow>
                 (Inr valCurs,
                  s\<lparr>cache := Cache_Set (cache s) t_set url valCurs cacheExpiration\<rparr>,
                  [url])))"
  by (simp add: fetchXML_def StatusOK_def split: http_outcome.splits)

lemma fetchXML_miss_success:
  assumes "Cache_Get (cache s) t_get url = None"
    and "fetchXML s url t_get net t_set = (Inr doc, s', sent)"
  shows "net = Response 200 (Inr doc)
       \<and> s' = s\<lparr>cache := Cache_Set (cache s) t_set url doc cacheExpiration\<rparr>
       \<and> sent = [url]"
  using assms
  by (auto simp: fetchXML_miss split: http_outcome.splits if_splits sum.splits)

lemma NewCurrencyService_miss:
  "Cache_Get (cache NewCurrencyService) t url = None"
  by (simp add: NewCurrencyService_def NewCache_def Cache_Get_def)

text \<open>
  C1. Two consecutive calls of \<^verbatim>\<open>fetchXML(url)\<close>, the first one a cache miss that
  succeeds, the second one reading the clock within one hour of the instant the first
  one stored its document: the first call sent exactly one request, for a response of
  status 200 whose body decoded to the document, and stored the document under \<open>url\<close>
  with the expiration one hour (3600000000000 ns) after the reading of its
  \<^verbatim>\<open>cache.Set\<close>; the second call finds the document in the cache and returns it, sends
  nothing, whatever the network would have answered, and leaves the service as it was.
  The two calls together sent one request.
\<close>

theorem fetchXML_twice_one_request:
  assumes miss: "Cache_Get (cache s) t1 url = None"
    and first: "fetchXML s url t1 net1 t_set1 = (Inr doc, s1, sent1)"
    and window: "t2 \<le> t_set1 + cacheExpiration"
    and second: "fetchXML s1 url t2 net2 t_set2 = (r2, s2, sent2)"
  shows "net1 = Response 200 (Inr doc)
       \<and> sent1 = [url]
       \<and> data (cache s1) = (data (cache s))(url \<mapsto> doc)
       \<and> expiration (cache s1) = (expiration (cache s))(url \<mapsto> t_set1 + 3600000000000)
       \<and> Cache_Get (cache s1) t2 url = Some doc
       \<and> r2 = Inr doc \<and> s2 = s1 \<and> sent2 = []
       \<and> length (sent1 @ sent2) = 1"
proof -
  note f = fetchXML_miss_success [OF miss first]
  from f have s1: "cache s1 = Cache_Set (cache s) t_set1 url doc cacheExpiration" by simp
  have ex: "expiration (cache s1) = (expiration (cache s))(url \<mapsto> t_set1 + 3600000000000)"
    and dat: "data (cache s1) = (data (cache s))(url \<mapsto> doc)"
    by (simp_all add: s1 Cache_Set_def Add_def cacheExpiration_def Hour_def Second_def)
  from window have hit: "Cache_Get (cache s1) t2 url = Some doc"
    by (simp add: Cache_Get_def ex dat After_def cacheExpiration_def Hour_def Second_def)
  from second have "r2 = Inr doc \<and> s2 = s1 \<and> sent2 = []"
    by (simp add: fetchXML_hit [OF hit])
  with f ex dat hit show ?thesis by simp
qed

theorem fetchXML_twice_one_request_witness:
  "fetchXML NewCurrencyService dailyRatesURL 0 (Response 200 (Inr example_daily)) 1
     = (Inr example_daily,
        \<lparr>client = \<lparr>Timeout = httpTimeout\<rparr>,
         cache = Cache_Set NewCache 1 dailyRatesURL example_daily cacheExpiration\<rparr>,
        [dailyRatesURL])
   \<and> fetchXML
        \<lparr>client = \<lparr>Timeout = httpTimeout\<rparr>,
         cache = Cache_Set NewCache 1 dailyRatesURL example_daily cacheExpiration\<rparr>
        dailyRatesURL 3600000000001 (DoFailed ''timeout'') 3600000000002
     = (Inr example_daily,
        \<lparr>client = \<lparr>Timeout = httpTimeout\<rparr>,
         cache = Cache_Set NewCache 1 dailyRatesURL example_daily cacheExpiration\<rparr>,
        [])"
proof -
  let ?s1 = "\<lparr>client = \<lparr>Timeout = httpTimeout\<rparr>,
              cache = Cache_Set NewCache 1 dailyRatesURL example_daily cacheExpiration\<rparr>"
  note miss = NewCurrencyService_miss [of 0 dailyRatesURL]
  have first: "fetchXML NewCurrencyService dailyRatesURL 0 (Response 200 (Inr example_daily)) 1
     = (Inr example_daily, ?s1, [dailyRatesURL])"
    by (simp add: fetchXML_miss [OF miss]) (simp add: NewCurrencyService_def)
  have window: "(3600000000001::int) \<le> 1 + cacheExpiration"
    by (simp add: cacheExpiration_def Hour_def Second_def)
  obtain r2 s2 sent2 where second:
    "fetchXML ?s1 dailyRatesURL 3600000000001 (DoFailed ''timeout'') 3600000000002
       = (r2, s2, sent2)"
    by (metis prod_cases3)
  from fetchXML_twice_one_request [OF miss first window second]
  have "r2 = Inr example_daily \<and> s2 = ?s1 \<and> sent2 = []" by simp
  with first second show ?thesis by simp
qed

text \<open>
  C4. Whatever \<^verbatim>\<open>fetchXML\<close> returns, if it is an error then the service, and so the
  cache with every entry it held, is as it was before the call; the service changes
  only when the call returns a document that came in a response of status 200. The
  call fails exactly on a cache miss followed by a request that cannot be built, a
  request that gets no response (which covers the timeout), a status other than 200,
  or a body that does not decode.
\<close>

theorem fetchXML_failure_keeps_cache:
  assumes "fetchXML s url t_get net t_set = (r, s', sent)"
  shows "(\<forall>err. r = Inl err \<longrightarrow> s' = s)
       \<and> (s' \<noteq> s \<longrightarrow> (\<exists>doc. r = Inr doc \<and> net = Response 200 (Inr doc)))
       \<and> ((\<exists>err. r = Inl err) \<longleftrightarrow>
            Cache_Get (cache s) t_get url = None
            \<and> (case net of
                  NewRequestFailed err \<Rightarrow> True
                | DoFailed err \<Rightarrow> True
                | Response code body \<Rightarrow> code \<noteq> 200 \<or> (\<exists>err. body = Inl err)))"
  using assms
  by (cases "Cache_Get (cache s) t_get url")
     (auto simp: fetchXML_miss fetchXML_hit split: http_outcome.splits if_splits sum.splits)

theorem fetchXML_failure_keeps_cache_witness:
  "fetchXML
     \<lparr>client = \<lparr>Timeout = httpTimeout\<rparr>,
      cache = Cache_Set NewCache 0 dailyRatesURL example_daily cacheExpiration\<rparr>
     dailyRatesURL 3600000000001 (Response 503 (Inr example_history)) 3600000000002
   = (Inl (UnexpectedStatusCode 503),
      \<lparr>client = \<lparr>Timeout = httpTimeout\<rparr>,
       cache = Cache_Set NewCache 0 dailyRatesURL example_daily cacheExpiration\<rparr>,
      [dailyRatesURL])"
proof -
  let ?s = "\<lparr>client = \<lparr>Timeout = httpTimeout\<rparr>,
             cache = Cache_Set NewCache 0 dailyRatesURL example_daily cacheExpiration\<rparr>"
  have miss: "Cache_Get (cache ?s) 3600000000001 dailyRatesURL = None"
    by (simp add: Cache_Get_def Cache_Set_def NewCache_def Add_def After_def
        cacheExpiration_def Hour_def Second_def)
  obtain r s' sent where call:
    "fetchXML ?s dailyRatesURL 3600000000001 (Response 503 (Inr example_history)) 3600000000002
       = (r, s', sent)"
    by (metis prod_cases3)
  from call have r: "r = Inl (UnexpectedStatusCode 503)" and sent: "sent = [dailyRatesURL]"
    by (simp_all add: fetchXML_miss [OF miss])
  from fetchXML_failure_keeps_cache [OF call] r have "s' = ?s" by blast
  with call r sent show ?thesis by simp
qed

text \<open>
  C5, as the claim states it, fails for the success statuses other than 200: the
  test of \<^verbatim>\<open>fetchXML\<close> is \<^verbatim>\<open>resp.StatusCode != http.StatusOK\<close>. A response of status
  203 whose body decodes to a document is refused with the status error, and nothing
  is stored.
\<close>

theorem fetchXML_status_203_counterexample:
  "(200::int) \<le> 203 \<and> (203::int) < 300
   \<and> fetchXML NewCurrencyService dailyRatesURL 0 (Response 203 (Inr example_daily)) 1
     = (Inl (UnexpectedStatusCode 203), NewCurrencyService, [dailyRatesURL])"
  by (simp add: fetchXML_miss [OF NewCurrencyService_miss])

text \<open>
  C5, amended. On a cache miss, \<^verbatim>\<open>fetchXML\<close> fails with the error that carries the
  status code whenever the status of the response is not 200, so for every status
  outside 2xx and for every 2xx status other than 200, and stores nothing; it passes
  the status check for the status 200 only, where the outcome is that of decoding
  the body.
\<close>

theorem fetchXML_status_check:
  assumes "Cache_Get (cache s) t_get url = None"
  shows "(code \<noteq> 200 \<longrightarrow>
            fetchXML s url t_get (Response code body) t_set
              = (Inl (UnexpectedStatusCode code), s, [url]))
       \<and> (\<not> (200 \<le> code \<and> code < 300) \<longrightarrow>
            fst (fetchXML s url t_get (Response code body) t_set)
              = Inl (UnexpectedStatusCode code))
       \<and> (code = 200 \<longrightarrow>
            fetchXML s url t_get (Response code body) t_set
              = (case body of
                   Inl err \<Rightarrow> (Inl (FailedToParseXML err), s, [url])
                 | Inr valCurs \<Rightarrow>
                     (Inr valCurs,
                      s\<lparr>cache := Cache_Set (cache s) t_set url valCurs cacheExpiration\<rparr>,
                      [url])))"
  by (auto simp: fetchXML_miss [OF assms])

theorem fetchXML_status_check_witness:
  "fetchXML NewCurrencyService dailyRatesURL 0 (Response 404 (Inl ''no document'')) 1
     = (Inl (UnexpectedStatusCode 404), NewCurrencyService, [dailyRatesURL])
   \<and> fst (fetchXML NewCurrencyService dailyRatesURL 0 (Response 200 (Inr example_daily)) 1)
     = Inr example_daily"
proof -
  note miss = NewCurrencyService_miss [of 0 dailyRatesURL]
  from fetchXML_status_check [OF miss, of 404 "Inl ''no document''" 1]
  have "fetchXML NewCurrencyService dailyRatesURL 0 (Response 404 (Inl ''no document'')) 1
     = (Inl (UnexpectedStatusCode 404), NewCurrencyService, [dailyRatesURL])"
    by simp
  moreover from fetchXML_status_check [OF miss, of 200 "Inr example_daily" 1]
  have "fst (fetchXML NewCurrencyService dailyRatesURL 0 (Response 200 (Inr example_daily)) 1)
     = Inr example_daily"
    by simp
  ultimately show ?thesis by simp
qed

section \<open>Properties of the rate parser\<close>

lemmas readFloat_simps = readFloat_def readFloat_finish_def isDigit_def isHexLetter_def
  byte_def lower_def Let_def

lemmas nearest_simps = nearestFloat64_def floorLog2_def roundHalfEven_def Let_def

lemma Replace_91_23: "Replace ''91,23'' CHR '','' ''.'' 1 = ''91.23''"
  by (simp add: Replace_def)

lemma special_91_23: "special ''91.23'' = None"
  by (simp add: special_def)

lemma readFloat_91_23:
  "readFloat ''91.23'' =
     Some \<lparr>rf_mantissa = 9123, rf_exp = - 2, rf_neg = False, rf_hex = False, rf_n = 5\<rparr>"
  by (simp add: readFloat_simps)

lemma nearest_9123_100: "nearestFloat64 False 9123 100 = (0x4056CEB851EB851F, False)"
  by (simp add: nearest_simps)

lemma ParseFloat_91_23: "ParseFloat ''91.23'' = Inr 0x4056CEB851EB851F"
  by (simp add: ParseFloat_def special_91_23 readFloat_91_23 nearest_9123_100)

lemma ParseFloat_abc: "ParseFloat ''abc'' = Inl (NumError ''ParseFloat'' ''abc'' ErrSyntax)"
  by (simp add: ParseFloat_def special_def readFloat_simps syntaxError_def fnParseFloat_def)

lemma ParseFloat_bad: "ParseFloat ''bad'' = Inl (NumError ''ParseFloat'' ''bad'' ErrSyntax)"
  by (simp add: ParseFloat_def special_def readFloat_simps syntaxError_def fnParseFloat_def)

lemma ParseFloat_empty: "ParseFloat [] = Inl (NumError ''ParseFloat'' [] ErrSyntax)"
  by (simp add: ParseFloat_def special_def readFloat_def syntaxError_def fnParseFloat_def)

lemma val_91_23: "float64_val 0x4056CEB851EB851F = 6419740531328287 / 2 ^ 46"
  by (simp add: float64_val_def Let_def)

lemma near_91_23: "\<bar>float64_val 0x4056CEB851EB851F - 9123 / 100\<bar> < 1 / 2 ^ 47"
  by (simp add: val_91_23)

lemma val_91: "float64_val 0x4056C00000000000 = 91"
  by (simp add: float64_val_def Let_def)

lemma val_92_5: "float64_val 0x4057200000000000 = 185 / 2"
  by (simp add: float64_val_def Let_def)

lemma replaceN_no_old: "old \<notin> set s \<Longrightarrow> replaceN s old new n = s"
  by (induction s) auto

lemma replaceN_zero: "replaceN s old new 0 = s"
  by (cases s) simp_all

lemma replaceN_first: "old \<notin> set a \<Longrightarrow> n \<noteq> 0 \<Longrightarrow> replaceN (a @ old # b) old new n = a @ new @ replaceN b old new (n - 1)"
  by (induction a) auto

lemma Replace_first_comma:
  "CHR '','' \<notin> set a \<Longrightarrow> Replace (a @ CHR '','' # b) CHR '','' ''.'' 1 = a @ CHR ''.'' # b"
  by (simp add: Replace_def replaceN_first replaceN_zero)

lemma Replace_no_comma:
  "CHR '','' \<notin> set s \<Longrightarrow> Replace s CHR '','' ''.'' 1 = s"
  by (simp add: Replace_def replaceN_no_old)

lemma ParseFloat_error:
  "ParseFloat s = Inl e \<Longrightarrow> e = NumError ''ParseFloat'' s ErrSyntax \<or> e = NumError ''ParseFloat'' s ErrRange"
  by (auto simp: ParseFloat_def syntaxError_def rangeError_def fnParseFloat_def Let_def
      split: option.splits if_splits prod.splits)


lemma parseRate_cases:
  "(case parseRate s of
      Inl e \<Rightarrow> (\<exists>k. e = FailedToParseRate (NumError ''ParseFloat'' (Replace s CHR '','' ''.'' 1) k))
    | Inr f \<Rightarrow> ParseFloat (Replace s CHR '','' ''.'' 1) = Inr f)"
  by (auto simp: parseRate_def split: sum.splits dest: ParseFloat_error)

lemma parseRate_91_23: "parseRate ''91,23'' = Inr 0x4056CEB851EB851F"
  by (simp add: parseRate_def Replace_91_23 ParseFloat_91_23)

lemma parseRate_91_23_dot: "parseRate ''91.23'' = Inr 0x4056CEB851EB851F"
  by (simp add: parseRate_def Replace_no_comma ParseFloat_91_23)

lemma parseRate_abc: "parseRate ''abc'' = Inl (FailedToParseRate (NumError ''ParseFloat'' ''abc'' ErrSyntax))"
  by (simp add: parseRate_def Replace_no_comma ParseFloat_abc)

lemma parseRate_empty: "parseRate [] = Inl (FailedToParseRate (NumError ''ParseFloat'' [] ErrSyntax))"
  by (simp add: parseRate_def Replace_no_comma ParseFloat_empty)

lemma readFloat_91_00:
  "readFloat ''91.00'' =
     Some \<lparr>rf_mantissa = 9100, rf_exp = - 2, rf_neg = False, rf_hex = False, rf_n = 5\<rparr>"
  by (simp add: readFloat_simps)

lemma nearest_9100_100: "nearestFloat64 False 9100 100 = (0x4056C00000000000, False)"
  by (simp add: nearest_simps)

lemma ParseFloat_91_00: "ParseFloat ''91.00'' = Inr 0x4056C00000000000"
  by (simp add: ParseFloat_def special_def readFloat_91_00 nearest_9100_100)

lemma readFloat_92_50:
  "readFloat ''92.50'' =
     Some \<lparr>rf_mantissa = 9250, rf_exp = - 2, rf_neg = False, rf_hex = False, rf_n = 5\<rparr>"
  by (simp add: readFloat_simps)

lemma nearest_9250_100: "nearestFloat64 False 9250 100 = (0x4057200000000000, False)"
  by (simp add: nearest_simps)

lemma ParseFloat_92_50: "ParseFloat ''92.50'' = Inr 0x4057200000000000"
  by (simp add: ParseFloat_def special_def readFloat_92_50 nearest_9250_100)

lemma parseRate_91_00: "parseRate ''91,00'' = Inr 0x4056C00000000000"
  by (simp add: parseRate_def Replace_def ParseFloat_91_00)

lemma parseRate_92_50: "parseRate ''92,50'' = Inr 0x4057200000000000"
  by (simp add: parseRate_def Replace_def ParseFloat_92_50)

lemma parseRate_bad:
  "parseRate ''bad'' = Inl (FailedToParseRate (NumError ''ParseFloat'' ''bad'' ErrSyntax))"
  by (simp add: parseRate_def Replace_no_comma ParseFloat_bad)

lemma digit_cases:
  assumes "c \<in> decimalDigits"
  obtains "c = CHR ''0''" | "c = CHR ''1''" | "c = CHR ''2''" | "c = CHR ''3''" | "c = CHR ''4''"
    | "c = CHR ''5''" | "c = CHR ''6''" | "c = CHR ''7''" | "c = CHR ''8''" | "c = CHR ''9''"
  using assms unfolding decimalDigits_def by auto

lemma digit_facts:
  assumes "c \<in> decimalDigits"
  shows "isDigit c" "c \<noteq> CHR ''_''" "c \<noteq> CHR ''.''" "c \<noteq> CHR '',''" "lower c \<noteq> 120"
    "c \<noteq> CHR ''+''" "c \<noteq> CHR ''-''" "c \<noteq> CHR ''i''" "c \<noteq> CHR ''I''"
    "c \<noteq> CHR ''n''" "c \<noteq> CHR ''N''"
  using assms
  by (cases c rule: digit_cases; simp add: isDigit_def byte_def lower_def)+

lemma digit_zero: "c \<in> decimalDigits \<Longrightarrow> (c = CHR ''0'') = (byte c - 48 = 0)"
  by (cases c rule: digit_cases; simp add: byte_def)

lemma readDigits_leading_zero:
  assumes "c \<in> decimalDigits" "c = CHR ''0''" "nd st = 0"
  shows "readDigits 10 (c # cs) st = readDigits 10 cs (st\<lparr>sawdigits := True, dp := dp st - 1\<rparr>)"
  using assms digit_facts(1-3) [OF assms(1)] by simp

lemma readDigits_counted:
  assumes "c \<in> decimalDigits" "\<not> (c = CHR ''0'' \<and> nd st = 0)"
  shows "readDigits 10 (c # cs) st =
           readDigits 10 cs (st\<lparr>sawdigits := True, nd := nd st + 1,
                                mantissa := mantissa st * 10 + (byte c - 48)\<rparr>)"
  using assms(2) digit_facts(1-3) [OF assms(1)] by (cases "c = CHR ''0''") simp_all

lemma readDigits_digit:
  assumes c: "c \<in> decimalDigits" and inv: "scan_inv st"
  shows "\<exists>st'. readDigits 10 (c # cs) st = readDigits 10 cs st'
           \<and> mantissa st' = mantissa st * 10 + (byte c - 48)
           \<and> sawdot st' = sawdot st \<and> underscores st' = underscores st \<and> sawdigits st'
           \<and> (dp st' - int (nd st') = dp st - int (nd st) - 1)
           \<and> scan_inv st'"
proof (cases "c = CHR ''0'' \<and> nd st = 0")
  case True
  with inv have m: "mantissa st = 0" by (simp add: scan_inv_def)
  from True digit_zero [OF c] have z: "byte c - 48 = 0" by simp
  let ?st = "st\<lparr>sawdigits := True, dp := dp st - 1\<rparr>"
  from True have "readDigits 10 (c # cs) st = readDigits 10 cs ?st"
    by (intro readDigits_leading_zero [OF c]) simp_all
  moreover from inv m z have "mantissa ?st = mantissa st * 10 + (byte c - 48)" "scan_inv ?st"
    by (simp_all add: scan_inv_def)
  ultimately show ?thesis by (intro exI [of _ ?st]) simp
next
  case False
  let ?st = "st\<lparr>sawdigits := True, nd := nd st + 1,
                 mantissa := mantissa st * 10 + (byte c - 48)\<rparr>"
  have r: "readDigits 10 (c # cs) st = readDigits 10 cs ?st"
    by (rule readDigits_counted [OF c False])
  have "mantissa st \<noteq> 0 \<or> byte c - 48 \<noteq> 0"
  proof (cases "nd st = 0")
    case True
    with False have "c \<noteq> CHR ''0''" by simp
    with digit_zero [OF c] show ?thesis by simp
  next
    case F: False
    with inv show ?thesis by (simp add: scan_inv_def)
  qed
  then have "scan_inv ?st" by (auto simp: scan_inv_def)
  with r show ?thesis by (intro exI [of _ ?st]) simp
qed

lemma readDigits_digits:
  assumes "set ds \<subseteq> decimalDigits" "scan_inv st"
  shows "\<exists>st'. readDigits 10 (ds @ rest) st = readDigits 10 rest st'
           \<and> mantissa st' = foldl (\<lambda>v c. v * 10 + (byte c - 48)) (mantissa st) ds
           \<and> sawdot st' = sawdot st \<and> underscores st' = underscores st
           \<and> sawdigits st' = (sawdigits st \<or> ds \<noteq> [])
           \<and> dp st' - int (nd st') = dp st - int (nd st) - int (length ds)
           \<and> scan_inv st'"
  using assms
proof (induction ds arbitrary: st)
  case Nil
  then show ?case by (intro exI [of _ st]) simp
next
  case (Cons c ds)
  from Cons.prems have c: "c \<in> decimalDigits" and ds: "set ds \<subseteq> decimalDigits" by simp_all
  from readDigits_digit [OF c Cons.prems(2), of "ds @ rest"]
  obtain st1 where 1: "readDigits 10 (c # ds @ rest) st = readDigits 10 (ds @ rest) st1"
    "mantissa st1 = mantissa st * 10 + (byte c - 48)"
    "sawdot st1 = sawdot st" "underscores st1 = underscores st" "sawdigits st1"
    "dp st1 - int (nd st1) = dp st - int (nd st) - 1"
    "scan_inv st1" by blast
  from Cons.IH [OF ds 1(7)]
  obtain st2 where 2: "readDigits 10 (ds @ rest) st1 = readDigits 10 rest st2"
    "mantissa st2 = foldl (\<lambda>v c. v * 10 + (byte c - 48)) (mantissa st1) ds"
    "sawdot st2 = sawdot st1" "underscores st2 = underscores st1"
    "sawdigits st2 = (sawdigits st1 \<or> ds \<noteq> [])"
    "dp st2 - int (nd st2) = dp st1 - int (nd st1) - int (length ds)"
    "scan_inv st2" by blast
  have "readDigits 10 ((c # ds) @ rest) st = readDigits 10 rest st2"
    using 1(1) 2(1) by simp
  moreover have "mantissa st2 = foldl (\<lambda>v c. v * 10 + (byte c - 48)) (mantissa st) (c # ds)"
    using 1(2) 2(2) by simp
  moreover have "dp st2 - int (nd st2) = dp st - int (nd st) - int (length (c # ds))"
    using 1(6) 2(6) by simp
  moreover have "sawdigits st2 = (sawdigits st \<or> c # ds \<noteq> [])" using 1(5) 2(5) by simp
  ultimately show ?case using 1(3,4) 2(3,4,7) by (intro exI [of _ st2]) simp
qed

lemma foldl_decimal_append:
  "foldl (\<lambda>v c. v * 10 + (byte c - 48)) (foldl (\<lambda>v c. v * 10 + (byte c - 48)) 0 ip) fp
     = decimalValue (ip @ fp)"
  by (simp add: decimalValue_def)

lemma readDigits_decimal:
  assumes ip: "set ip \<subseteq> decimalDigits" and fp: "set fp \<subseteq> decimalDigits"
  shows "\<exists>st. readDigits 10 (ip @ CHR ''.'' # fp) scan0 = (st, [])
           \<and> mantissa st = decimalValue (ip @ fp) \<and> sawdot st \<and> \<not> underscores st
           \<and> sawdigits st = (ip @ fp \<noteq> [])
           \<and> dp st - int (nd st) = - int (length fp)"
proof -
  have i0: "scan_inv scan0" by (simp add: scan_inv_def scan0_def)
  from readDigits_digits [OF ip i0, of "CHR ''.'' # fp"]
  obtain st1 where 1: "readDigits 10 (ip @ CHR ''.'' # fp) scan0 = readDigits 10 (CHR ''.'' # fp) st1"
    "mantissa st1 = foldl (\<lambda>v c. v * 10 + (byte c - 48)) (mantissa scan0) ip"
    "sawdot st1 = sawdot scan0" "underscores st1 = underscores scan0"
    "sawdigits st1 = (sawdigits scan0 \<or> ip \<noteq> [])" "scan_inv st1" by blast
  let ?st = "st1\<lparr>sawdot := True, dp := int (nd st1)\<rparr>"
  from 1(3) have dot: "readDigits 10 (CHR ''.'' # fp) st1 = readDigits 10 fp ?st"
    by (simp add: scan0_def)
  from 1(6) have i1: "scan_inv ?st" by (simp add: scan_inv_def)
  from readDigits_digits [OF fp i1, of "[]"]
  obtain st2 where 2: "readDigits 10 fp ?st = readDigits 10 [] st2"
    "mantissa st2 = foldl (\<lambda>v c. v * 10 + (byte c - 48)) (mantissa ?st) fp"
    "sawdot st2 = sawdot ?st" "underscores st2 = underscores ?st"
    "sawdigits st2 = (sawdigits ?st \<or> fp \<noteq> [])"
    "dp st2 - int (nd st2) = dp ?st - int (nd ?st) - int (length fp)" by auto
  have "readDigits 10 (ip @ CHR ''.'' # fp) scan0 = (st2, [])" using 1(1) dot 2(1) by simp
  moreover have "mantissa st2 = decimalValue (ip @ fp)"
    using 1(2) 2(2) by (simp add: scan0_def decimalValue_def)
  moreover have "sawdot st2" "\<not> underscores st2" using 1(4) 2(3,4) by (simp_all add: scan0_def)
  moreover have "sawdigits st2 = (ip @ fp \<noteq> [])" using 1(5) 2(5) by (simp add: scan0_def)
  moreover have "dp st2 - int (nd st2) = - int (length fp)" using 2(6) by simp
  ultimately show ?thesis by (intro exI [of _ st2]) simp
qed

lemma no_hex_prefix:
  assumes "\<forall>x \<in> set s. lower x \<noteq> 120"
  shows "(case s of c0 # c1 # _ # _ \<Rightarrow> c0 = CHR ''0'' \<and> lower c1 = 120 | _ \<Rightarrow> False) = False"
  using assms by (auto split: list.splits)

lemma readFloat_plain:
  assumes s: "s = c # cs" and c: "c \<noteq> CHR ''+''" "c \<noteq> CHR ''-''"
    and nohex: "\<forall>x \<in> set s. lower x \<noteq> 120"
    and rd: "readDigits 10 s scan0 = (st, [])"
    and st: "sawdigits st" "\<not> underscores st"
  shows "readFloat s =
           Some \<lparr>rf_mantissa = mantissa st,
                 rf_exp = (if mantissa st \<noteq> 0
                           then (if sawdot st then dp st else int (nd st)) - int (nd st) else 0),
                 rf_neg = False, rf_hex = False, rf_n = length s\<rparr>"
proof -
  note h = no_hex_prefix [OF nohex]
  have "readFloat (c # cs) =
           Some \<lparr>rf_mantissa = mantissa st,
                 rf_exp = (if mantissa st \<noteq> 0
                           then (if sawdot st then dp st else int (nd st)) - int (nd st) else 0),
                 rf_neg = False, rf_hex = False, rf_n = length (c # cs)\<rparr>"
    unfolding readFloat_def
    using c h [unfolded s] rd [unfolded s scan0_def] st
    by (simp add: Let_def readFloat_finish_def del: readDigits.simps)
  then show ?thesis by (simp only: s)
qed

lemma lower_dot: "lower CHR ''.'' \<noteq> 120"
  by (simp add: lower_def byte_def)

lemma readFloat_decimal:
  assumes ip: "set ip \<subseteq> decimalDigits" and fp: "set fp \<subseteq> decimalDigits"
    and ne: "ip @ fp \<noteq> []"
  shows "readFloat (ip @ CHR ''.'' # fp) =
           Some \<lparr>rf_mantissa = decimalValue (ip @ fp),
                 rf_exp = (if decimalValue (ip @ fp) \<noteq> 0 then - int (length fp) else 0),
                 rf_neg = False, rf_hex = False, rf_n = length (ip @ CHR ''.'' # fp)\<rparr>"
proof -
  let ?s = "ip @ CHR ''.'' # fp"
  from readDigits_decimal [OF ip fp]
  obtain st where st: "readDigits 10 ?s scan0 = (st, [])"
    "mantissa st = decimalValue (ip @ fp)" "sawdot st" "\<not> underscores st"
    "sawdigits st = (ip @ fp \<noteq> [])" "dp st - int (nd st) = - int (length fp)" by blast
  obtain c cs where s: "?s = c # cs" by (cases ?s) simp_all
  then have "c \<in> set ?s" by simp
  with ip fp have "c \<in> decimalDigits \<or> c = CHR ''.''" by auto
  with digit_facts(6,7) [of c] have c: "c \<noteq> CHR ''+''" "c \<noteq> CHR ''-''" by auto
  have nohex: "\<forall>x \<in> set ?s. lower x \<noteq> 120"
    using ip fp digit_facts(5) lower_dot by auto
  from st(5) ne have sd: "sawdigits st" by simp
  from readFloat_plain [OF s c nohex st(1) sd st(4)] st(2,3,6) show ?thesis by simp
qed

lemma special_plain:
  assumes "s = c # cs" "c \<noteq> CHR ''+''" "c \<noteq> CHR ''-''" "c \<noteq> CHR ''i''" "c \<noteq> CHR ''I''"
    "c \<noteq> CHR ''n''" "c \<noteq> CHR ''N''"
  shows "special s = None"
  using assms by (simp add: special_def)

lemma nearestFloat64_zero: "nearestFloat64 neg 0 b = nearestFloat64 neg 0 1"
  by (simp add: nearestFloat64_def)

lemma ParseFloat_plain:
  assumes "special s = None"
    and "readFloat s = Some \<lparr>rf_mantissa = V, rf_exp = e, rf_neg = False, rf_hex = False,
                              rf_n = length s\<rparr>"
  shows "ParseFloat s =
           (case (if 0 \<le> e then nearestFloat64 False (V * 10 ^ nat e) 1
                  else nearestFloat64 False V (10 ^ nat (- e))) of
              (f, ovf) \<Rightarrow>
                if ovf then Inl (NumError ''ParseFloat'' s ErrRange) else Inr f)"
  using assms
  by (simp add: ParseFloat_def rangeError_def fnParseFloat_def Let_def split: prod.splits)

lemma ParseFloat_decimal:
  assumes ip: "set ip \<subseteq> decimalDigits" and fp: "set fp \<subseteq> decimalDigits"
    and ne: "ip @ fp \<noteq> []"
  shows "ParseFloat (ip @ CHR ''.'' # fp) =
           (case nearestFloat64 False (decimalValue (ip @ fp)) (10 ^ length fp) of
              (f, ovf) \<Rightarrow>
                if ovf then Inl (NumError ''ParseFloat'' (ip @ CHR ''.'' # fp) ErrRange)
                else Inr f)"
proof -
  define s where "s = ip @ CHR ''.'' # fp"
  define V where "V = decimalValue (ip @ fp)"
  define e where "e = (if V \<noteq> 0 then - int (length fp) else 0)"
  obtain c cs where s: "s = c # cs" by (cases s) (simp_all add: s_def)
  then have "c \<in> set s" by simp
  with ip fp have "c \<in> decimalDigits \<or> c = CHR ''.''" by (auto simp: s_def)
  with digit_facts(6-11) [of c]
  have "c \<noteq> CHR ''+''" "c \<noteq> CHR ''-''" "c \<noteq> CHR ''i''" "c \<noteq> CHR ''I''"
    "c \<noteq> CHR ''n''" "c \<noteq> CHR ''N''" by auto
  from special_plain [OF s this] have sp: "special s = None" .
  have rf: "readFloat s = Some \<lparr>rf_mantissa = V, rf_exp = e, rf_neg = False, rf_hex = False,
                              rf_n = length s\<rparr>"
    unfolding s_def V_def e_def by (rule readFloat_decimal [OF ip fp ne])
  have "(if 0 \<le> e then nearestFloat64 False (V * 10 ^ nat e) 1
         else nearestFloat64 False V (10 ^ nat (- e))) = nearestFloat64 False V (10 ^ length fp)"
  proof (cases "V = 0")
    case True
    then show ?thesis
      using nearestFloat64_zero [of False "10 ^ length fp"] by (simp add: e_def)
  next
    case False
    show ?thesis
    proof (cases "fp = []")
      case True
      with False show ?thesis by (simp add: e_def)
    next
      case F: False
      with False show ?thesis by (simp add: e_def)
    qed
  qed
  with ParseFloat_plain [OF sp rf] show ?thesis
    unfolding s_def V_def by simp
qed

lemma parseRate_Inr_iff:
  "(parseRate s = Inr f) = (ParseFloat (Replace s CHR '','' ''.'' 1) = Inr f)"
  by (simp add: parseRate_def split: sum.splits)

lemma parseRate_Inl_iff:
  "(parseRate s = Inl e) = (\<exists>err. ParseFloat (Replace s CHR '','' ''.'' 1) = Inl err \<and> e = FailedToParseRate err)"
  by (auto simp: parseRate_def split: sum.splits)

lemma parseRate_decimal_dot:
  assumes ip: "set ip \<subseteq> decimalDigits" and fp: "set fp \<subseteq> decimalDigits"
    and ne: "ip @ fp \<noteq> []"
  shows "parseRate (ip @ CHR ''.'' # fp) =
           (case nearestFloat64 False (decimalValue (ip @ fp)) (10 ^ length fp) of
              (f, ovf) \<Rightarrow>
                if ovf then Inl (FailedToParseRate
                                   (NumError ''ParseFloat'' (ip @ CHR ''.'' # fp) ErrRange))
                else Inr f)"
proof -
  have "CHR '','' \<notin> set (ip @ CHR ''.'' # fp)"
    using ip fp digit_facts(4) by auto
  then have "Replace (ip @ CHR ''.'' # fp) CHR '','' ''.'' 1 = ip @ CHR ''.'' # fp"
    by (rule Replace_no_comma)
  then show ?thesis
    by (simp only: parseRate_def ParseFloat_decimal [OF ip fp ne])
       (simp split: prod.splits)
qed

lemma parseRate_decimal_comma:
  assumes ip: "set ip \<subseteq> decimalDigits" and fp: "set fp \<subseteq> decimalDigits"
    and ne: "ip @ fp \<noteq> []"
  shows "parseRate (ip @ CHR '','' # fp) =
           (case nearestFloat64 False (decimalValue (ip @ fp)) (10 ^ length fp) of
              (f, ovf) \<Rightarrow>
                if ovf then Inl (FailedToParseRate
                                   (NumError ''ParseFloat'' (ip @ CHR ''.'' # fp) ErrRange))
                else Inr f)"
proof -
  have "CHR '','' \<notin> set ip"
    using ip digit_facts(4) by auto
  then have "Replace (ip @ CHR '','' # fp) CHR '','' ''.'' 1 = ip @ CHR ''.'' # fp"
    by (rule Replace_first_comma)
  then show ?thesis
    by (simp only: parseRate_def ParseFloat_decimal [OF ip fp ne])
       (simp split: prod.splits)
qed

lemma decimalValue_75_5: "decimalValue ''755'' = 755"
  by (simp add: decimalValue_def byte_def)

lemma nearest_755_10: "nearestFloat64 False 755 10 = (0x4052E00000000000, False)"
  by (simp add: nearest_simps)

lemma parseRate_75_5: "parseRate ''75,5'' = Inr 0x4052E00000000000"
proof -
  have "set ''75'' \<subseteq> decimalDigits" "set ''5'' \<subseteq> decimalDigits" "''75'' @ ''5'' \<noteq> []"
    by (simp_all add: decimalDigits_def)
  from parseRate_decimal_comma [OF this] show ?thesis
    by (simp add: decimalValue_75_5 nearest_755_10)
qed

lemma val_75_5: "float64_val 0x4052E00000000000 = 151 / 2"
  by (simp add: float64_val_def)

text \<open>
  C8. \<^verbatim>\<open>parseRate\<close> replaces the first comma of its input by a dot and hands the result
  to \<^verbatim>\<open>strconv.ParseFloat\<close>: it returns either the float64 that \<^verbatim>\<open>ParseFloat\<close> returns
  or the error that wraps the \<^verbatim>\<open>*NumError\<close> of \<^verbatim>\<open>ParseFloat\<close> for the normalised
  string, and nothing else (no input makes it panic). It returns a float64 exactly
  when \<^verbatim>\<open>ParseFloat\<close> returns that float64 for the normalised string, and an error
  exactly when \<^verbatim>\<open>ParseFloat\<close> returns the error it wraps. For digits \<open>ip\<close> and \<open>fp\<close>,
  not both empty, the input \<open>ip\<close>, comma, \<open>fp\<close> and the input \<open>ip\<close>, dot, \<open>fp\<close> give
  the same result: the float64 nearest to the number that the digits \<open>ip\<close> and \<open>fp\<close>
  write, divided by 10 to the number of digits of \<open>fp\<close> (the range error of
  \<^verbatim>\<open>ParseFloat\<close> for the string with the dot when that number is beyond the float64
  range). Both \<^verbatim>\<open>"91,23"\<close> and \<^verbatim>\<open>"91.23"\<close> parse to the float64 of bit pattern
  \<^verbatim>\<open>0x4056CEB851EB851F\<close>, which is the float64 nearest to 91.23 (it is a multiple of
  \<open>1 / 2 ^ 46\<close>, the distance between float64 values from 64 to 128, and closer to
  91.23 than half of that); \<^verbatim>\<open>"75,5"\<close> parses to \<^verbatim>\<open>0x4052E00000000000\<close>, which is 75.5;
  \<^verbatim>\<open>"abc"\<close> and the empty string fail with the syntax error of \<^verbatim>\<open>ParseFloat\<close>.
\<close>

theorem parseRate_comma_and_dot:
  "(case parseRate s of
      Inl e \<Rightarrow> \<exists>k. e = FailedToParseRate (NumError ''ParseFloat'' (Replace s CHR '','' ''.'' 1) k)
    | Inr f \<Rightarrow> ParseFloat (Replace s CHR '','' ''.'' 1) = Inr f)
   \<and> (CHR '','' \<notin> set a \<longrightarrow> Replace (a @ CHR '','' # b) CHR '','' ''.'' 1 = a @ CHR ''.'' # b)
   \<and> (CHR '','' \<notin> set a \<longrightarrow> Replace a CHR '','' ''.'' 1 = a)
   \<and> parseRate ''91,23'' = Inr 0x4056CEB851EB851F
   \<and> parseRate ''91.23'' = Inr 0x4056CEB851EB851F
   \<and> float64_val 0x4056CEB851EB851F = 6419740531328287 / 2 ^ 46
   \<and> \<bar>float64_val 0x4056CEB851EB851F - 9123 / 100\<bar> < 1 / 2 ^ 47
   \<and> parseRate ''abc'' = Inl (FailedToParseRate (NumError ''ParseFloat'' ''abc'' ErrSyntax))
   \<and> parseRate [] = Inl (FailedToParseRate (NumError ''ParseFloat'' [] ErrSyntax))
   \<and> (parseRate s = Inr f) = (ParseFloat (Replace s CHR '','' ''.'' 1) = Inr f)
   \<and> (parseRate s = Inl (FailedToParseRate err)) = (ParseFloat (Replace s CHR '','' ''.'' 1) = Inl err)
   \<and> (\<forall>e. parseRate s = Inl e \<longrightarrow> (\<exists>err. e = FailedToParseRate err))
   \<and> (set ip \<subseteq> decimalDigits \<and> set fp \<subseteq> decimalDigits \<and> ip @ fp \<noteq> [] \<longrightarrow>
        parseRate (ip @ CHR '','' # fp) =
          (case nearestFloat64 False (decimalValue (ip @ fp)) (10 ^ length fp) of
             (rate, ovf) \<Rightarrow>
               if ovf then Inl (FailedToParseRate
                                  (NumError ''ParseFloat'' (ip @ CHR ''.'' # fp) ErrRange))
               else Inr rate)
        \<and> parseRate (ip @ CHR ''.'' # fp) = parseRate (ip @ CHR '','' # fp))
   \<and> parseRate ''75,5'' = Inr 0x4052E00000000000
   \<and> float64_val 0x4052E00000000000 = 151 / 2"
proof (intro conjI impI allI)
  show "case parseRate s of
      Inl e \<Rightarrow> \<exists>k. e = FailedToParseRate (NumError ''ParseFloat'' (Replace s CHR '','' ''.'' 1) k)
    | Inr f \<Rightarrow> ParseFloat (Replace s CHR '','' ''.'' 1) = Inr f"
    by (rule parseRate_cases)
next
  assume "CHR '','' \<notin> set a"
  then show "Replace (a @ CHR '','' # b) CHR '','' ''.'' 1 = a @ CHR ''.'' # b"
    by (rule Replace_first_comma)
next
  assume "CHR '','' \<notin> set a"
  then show "Replace a CHR '','' ''.'' 1 = a"
    by (rule Replace_no_comma)
next
  show "parseRate ''91,23'' = Inr 0x4056CEB851EB851F" by (rule parseRate_91_23)
next
  show "parseRate ''91.23'' = Inr 0x4056CEB851EB851F" by (rule parseRate_91_23_dot)
next
  show "float64_val 0x4056CEB851EB851F = 6419740531328287 / 2 ^ 46" by (rule val_91_23)
next
  show "\<bar>float64_val 0x4056CEB851EB851F - 9123 / 100\<bar> < 1 / 2 ^ 47"
    by (simp add: val_91_23)
next
  show "parseRate ''abc'' = Inl (FailedToParseRate (NumError ''ParseFloat'' ''abc'' ErrSyntax))"
    by (rule parseRate_abc)
next
  show "parseRate [] = Inl (FailedToParseRate (NumError ''ParseFloat'' [] ErrSyntax))"
    by (rule parseRate_empty)
next
  show "(parseRate s = Inr f) = (ParseFloat (Replace s CHR '','' ''.'' 1) = Inr f)"
    by (rule parseRate_Inr_iff)
next
  show "(parseRate s = Inl (FailedToParseRate err)) = (ParseFloat (Replace s CHR '','' ''.'' 1) = Inl err)"
    by (simp add: parseRate_Inl_iff)
next
  fix e
  assume "parseRate s = Inl e"
  then show "\<exists>err. e = FailedToParseRate err"
    by (auto simp: parseRate_Inl_iff)
next
  assume d: "set ip \<subseteq> decimalDigits \<and> set fp \<subseteq> decimalDigits \<and> ip @ fp \<noteq> []"
  then have ip: "set ip \<subseteq> decimalDigits" and fp: "set fp \<subseteq> decimalDigits"
    and ne: "ip @ fp \<noteq> []" by simp_all
  show "parseRate (ip @ CHR '','' # fp) =
          (case nearestFloat64 False (decimalValue (ip @ fp)) (10 ^ length fp) of
             (rate, ovf) \<Rightarrow>
               if ovf then Inl (FailedToParseRate
                                  (NumError ''ParseFloat'' (ip @ CHR ''.'' # fp) ErrRange))
               else Inr rate)"
    by (rule parseRate_decimal_comma [OF ip fp ne])
  show "parseRate (ip @ CHR ''.'' # fp) = parseRate (ip @ CHR '','' # fp)"
    by (simp only: parseRate_decimal_comma [OF ip fp ne] parseRate_decimal_dot [OF ip fp ne])
next
  show "parseRate ''75,5'' = Inr 0x4052E00000000000" by (rule parseRate_75_5)
next
  show "float64_val 0x4052E00000000000 = 151 / 2" by (rule val_75_5)
qed

theorem parseRate_comma_and_dot_witness:
  "Replace ''1,2,3'' CHR '','' ''.'' 1 = ''1.2,3''
   \<and> parseRate ''1,2,3'' = Inl (FailedToParseRate (NumError ''ParseFloat'' ''1.2,3'' ErrSyntax))
   \<and> parseRate ''0,5'' = Inr 0x3FE0000000000000"
proof -
  have r: "Replace ''1,2,3'' CHR '','' ''.'' 1 = ''1.2,3''"
    using parseRate_comma_and_dot [where a = "''1''" and b = "''2,3''", THEN conjunct2, THEN conjunct1]
    by simp
  have "ParseFloat ''1.2,3'' = Inl (NumError ''ParseFloat'' ''1.2,3'' ErrSyntax)"
    by (simp add: ParseFloat_def special_def readFloat_simps syntaxError_def fnParseFloat_def)
  with r have e: "parseRate ''1,2,3''
                    = Inl (FailedToParseRate (NumError ''ParseFloat'' ''1.2,3'' ErrSyntax))"
    by (simp add: parseRate_def)
  have d: "set ''0'' \<subseteq> decimalDigits \<and> set ''5'' \<subseteq> decimalDigits \<and> ''0'' @ ''5'' \<noteq> []"
    by (simp add: decimalDigits_def)
  have v: "decimalValue ''05'' = 5" by (simp add: decimalValue_def byte_def)
  have n: "nearestFloat64 False 5 10 = (0x3FE0000000000000, False)"
    by (simp add: nearest_simps)
  have "parseRate ''0,5'' = Inr 0x3FE0000000000000"
    using parseRate_comma_and_dot [where ip = "''0''" and fp = "''5''",
        THEN conjunct2, THEN conjunct2, THEN conjunct2, THEN conjunct2, THEN conjunct2,
        THEN conjunct2, THEN conjunct2, THEN conjunct2, THEN conjunct2, THEN conjunct2,
        THEN conjunct2, THEN conjunct2, THEN conjunct1, THEN mp, OF d, THEN conjunct1]
    by (simp add: v n)
  with r e show ?thesis by simp
qed

section \<open>Properties of the currency service\<close>

lemma GetUsdRate_loop_find:
  "GetUsdRate_loop vs =
     (case find (\<lambda>v. CharCode v = ''USD'') vs of
        None \<Rightarrow> Inl UsdRateNotFound
      | Some v \<Rightarrow> parseRate (Valute.Value v))"
  by (induction vs) simp_all

lemma GetUsdRate_loop_first:
  "\<forall>u \<in> set pre. CharCode u \<noteq> ''USD'' \<Longrightarrow> CharCode v = ''USD'' \<Longrightarrow>
   GetUsdRate_loop (pre @ v # post) = parseRate (Valute.Value v)"
  by (induction pre) simp_all

lemma GetUsdRate_loop_none:
  "\<forall>u \<in> set vs. CharCode u \<noteq> ''USD'' \<Longrightarrow> GetUsdRate_loop vs = Inl UsdRateNotFound"
  by (induction vs) simp_all

lemma GetUsdRatesHistory_loop_map_filter:
  "GetUsdRatesHistory_loop rs history = history @ List.map_filter historyPoint rs"
  by (induction rs arbitrary: history)
     (simp_all add: List.map_filter_simps historyPoint_def split: sum.splits)

lemma example_history_points:
  "List.map_filter historyPoint (Records example_history) =
     [\<lparr>RateHistory.Date = ''01.01.2024'', Rate = 0x4056C00000000000\<rparr>,
      \<lparr>RateHistory.Date = ''03.01.2024'', Rate = 0x4057200000000000\<rparr>]"
  by (simp add: example_history_def List.map_filter_simps historyPoint_def
      parseRate_91_00 parseRate_bad parseRate_92_50)

lemma map_filter_all_None: "\<forall>x \<in> set xs. f x = None \<Longrightarrow> List.map_filter f xs = []"
  by (induction xs) (simp_all add: List.map_filter_simps)

text \<open>
  C6. When the fetch of the daily snapshot succeeds, \<^verbatim>\<open>GetUsdRate\<close> returns the
  parsed value of the first entry, in the order of the document, whose currency code is
  exactly the string \<^verbatim>\<open>USD\<close> (whatever the entries after it are, and whether or not
  that value parses), and the error \<^verbatim>\<open>USD rate not found\<close> when no entry has that
  code. For the entries \<^verbatim>\<open>{"EUR","100,00"}\<close>, \<^verbatim>\<open>{"USD","91,23"}\<close> it returns the
  float64 nearest to 91.23.
\<close>

theorem GetUsdRate_first_USD:
  assumes "GetDailyRates s t_get net t_set = (Inr valCurs, s', sent)"
  shows "GetUsdRate s t_get net t_set =
           ((case find (\<lambda>v. CharCode v = ''USD'') (Valutes valCurs) of
               None \<Rightarrow> Inl UsdRateNotFound
             | Some v \<Rightarrow> parseRate (Valute.Value v)), s', sent)
       \<and> (\<forall>pre v post.
             Valutes valCurs = pre @ v # post \<and> CharCode v = ''USD''
             \<and> (\<forall>u \<in> set pre. CharCode u \<noteq> ''USD'') \<longrightarrow>
             fst (GetUsdRate s t_get net t_set) = parseRate (Valute.Value v))
       \<and> ((\<forall>u \<in> set (Valutes valCurs). CharCode u \<noteq> ''USD'') \<longrightarrow>
             fst (GetUsdRate s t_get net t_set) = Inl UsdRateNotFound)
       \<and> (Valutes valCurs = [\<lparr>CharCode = ''EUR'', Valute.Value = ''100,00''\<rparr>,
                              \<lparr>CharCode = ''USD'', Valute.Value = ''91,23''\<rparr>] \<longrightarrow>
             fst (GetUsdRate s t_get net t_set) = Inr 0x4056CEB851EB851F)
       \<and> \<bar>float64_val 0x4056CEB851EB851F - 9123 / 100\<bar> < 1 / 2 ^ 47"
proof -
  have g: "GetUsdRate s t_get net t_set = (GetUsdRate_loop (Valutes valCurs), s', sent)"
    using assms by (simp add: GetUsdRate_def)
  show ?thesis
  proof (intro conjI allI impI)
    show "GetUsdRate s t_get net t_set =
           ((case find (\<lambda>v. CharCode v = ''USD'') (Valutes valCurs) of
               None \<Rightarrow> Inl UsdRateNotFound
             | Some v \<Rightarrow> parseRate (Valute.Value v)), s', sent)"
      by (simp add: g GetUsdRate_loop_find)
  next
    fix pre v post
    assume "Valutes valCurs = pre @ v # post \<and> CharCode v = ''USD''
             \<and> (\<forall>u \<in> set pre. CharCode u \<noteq> ''USD'')"
    then show "fst (GetUsdRate s t_get net t_set) = parseRate (Valute.Value v)"
      by (simp add: g GetUsdRate_loop_first)
  next
    assume "\<forall>u \<in> set (Valutes valCurs). CharCode u \<noteq> ''USD''"
    then show "fst (GetUsdRate s t_get net t_set) = Inl UsdRateNotFound"
      by (simp add: g GetUsdRate_loop_none)
  next
    assume "Valutes valCurs = [\<lparr>CharCode = ''EUR'', Valute.Value = ''100,00''\<rparr>,
                              \<lparr>CharCode = ''USD'', Valute.Value = ''91,23''\<rparr>]"
    then show "fst (GetUsdRate s t_get net t_set) = Inr 0x4056CEB851EB851F"
      by (simp add: g parseRate_91_23)
  next
    show "\<bar>float64_val 0x4056CEB851EB851F - 9123 / 100\<bar> < 1 / 2 ^ 47"
      by (rule near_91_23)
  qed
qed

theorem GetUsdRate_first_USD_witness:
  "fst (GetUsdRate NewCurrencyService 0 (Response 200 (Inr example_daily)) 1) = Inr 0x4056CEB851EB851F
   \<and> fst (GetUsdRate NewCurrencyService 0
           (Response 200 (Inr \<lparr>ValCurs.Date = ''02.01.2024'',
                                Valutes = [\<lparr>CharCode = ''usd'', Valute.Value = ''91,23''\<rparr>],
                                Records = []\<rparr>)) 1) = Inl UsdRateNotFound"
proof -
  let ?lower = "\<lparr>ValCurs.Date = ''02.01.2024'',
                  Valutes = [\<lparr>CharCode = ''usd'', Valute.Value = ''91,23''\<rparr>],
                  Records = []\<rparr>"
  let ?s = "\<lambda>doc. NewCurrencyService
              \<lparr>cache := Cache_Set (cache NewCurrencyService) 1 dailyRatesURL doc cacheExpiration\<rparr>"
  have f: "GetDailyRates NewCurrencyService 0 (Response 200 (Inr doc)) 1
             = (Inr doc, ?s doc, [dailyRatesURL])" for doc
    by (simp add: GetDailyRates_def fetchXML_miss [OF NewCurrencyService_miss])
  note usd = GetUsdRate_first_USD
    [OF f [of example_daily], THEN conjunct2, THEN conjunct2, THEN conjunct2, THEN conjunct1]
  have "fst (GetUsdRate NewCurrencyService 0 (Response 200 (Inr example_daily)) 1)
          = Inr 0x4056CEB851EB851F"
    by (rule usd [THEN mp]) (simp add: example_daily_def)
  moreover
  note none = GetUsdRate_first_USD [OF f [of ?lower], THEN conjunct2, THEN conjunct2, THEN conjunct1]
  have "fst (GetUsdRate NewCurrencyService 0 (Response 200 (Inr ?lower)) 1) = Inl UsdRateNotFound"
    by (rule none [THEN mp]) simp
  ultimately show ?thesis by simp
qed

text \<open>
  C7. When the fetch of the historical document succeeds, \<^verbatim>\<open>GetUsdRatesHistory\<close>
  returns, with no error, the records of the document in their order, each as its
  date with its parsed rate, without the records whose value does not parse. For the
  records \<^verbatim>\<open>{"01.01.2024","91,00"}\<close>, \<^verbatim>\<open>{"02.01.2024","bad"}\<close>,
  \<^verbatim>\<open>{"03.01.2024","92,50"}\<close> it returns the first with the float64 91 and the third
  with the float64 92.5.
\<close>

theorem GetUsdRatesHistory_drops_unparsable:
  assumes "fetchXML s (historyURL now) t_get net t_set = (Inr valCurs, s', sent)"
  shows "GetUsdRatesHistory s now t_get net t_set
           = (Inr (List.map_filter historyPoint (Records valCurs)), s', sent)
       \<and> (Records valCurs = Records example_history \<longrightarrow>
            fst (GetUsdRatesHistory s now t_get net t_set)
              = Inr [\<lparr>RateHistory.Date = ''01.01.2024'', Rate = 0x4056C00000000000\<rparr>,
                     \<lparr>RateHistory.Date = ''03.01.2024'', Rate = 0x4057200000000000\<rparr>])
       \<and> float64_val 0x4056C00000000000 = 91 \<and> float64_val 0x4057200000000000 = 185 / 2"
proof -
  have g: "GetUsdRatesHistory s now t_get net t_set
             = (Inr (List.map_filter historyPoint (Records valCurs)), s', sent)"
    using assms by (simp add: GetUsdRatesHistory_def GetUsdRatesHistory_loop_map_filter)
  show ?thesis
  proof (intro conjI impI)
    show "GetUsdRatesHistory s now t_get net t_set
            = (Inr (List.map_filter historyPoint (Records valCurs)), s', sent)"
      by (rule g)
  next
    assume "Records valCurs = Records example_history"
    then show "fst (GetUsdRatesHistory s now t_get net t_set)
              = Inr [\<lparr>RateHistory.Date = ''01.01.2024'', Rate = 0x4056C00000000000\<rparr>,
                     \<lparr>RateHistory.Date = ''03.01.2024'', Rate = 0x4057200000000000\<rparr>]"
      by (simp add: g example_history_points)
  next
    show "float64_val 0x4056C00000000000 = 91" by (rule val_91)
  next
    show "float64_val 0x4057200000000000 = 185 / 2" by (rule val_92_5)
  qed
qed

theorem GetUsdRatesHistory_drops_unparsable_witness:
  "fst (GetUsdRatesHistory NewCurrencyService example_now 0
          (Response 200 (Inr example_history)) 1)
     = Inr [\<lparr>RateHistory.Date = ''01.01.2024'', Rate = 0x4056C00000000000\<rparr>,
            \<lparr>RateHistory.Date = ''03.01.2024'', Rate = 0x4057200000000000\<rparr>]"
proof -
  let ?now = "example_now"
  have f: "fetchXML NewCurrencyService (historyURL ?now) 0 (Response 200 (Inr example_history)) 1
             = (Inr example_history,
                NewCurrencyService
                  \<lparr>cache := Cache_Set (cache NewCurrencyService) 1 (historyURL ?now)
                              example_history cacheExpiration\<rparr>,
                [historyURL ?now])"
    by (simp add: fetchXML_miss [OF NewCurrencyService_miss])
  show ?thesis
    by (rule GetUsdRatesHistory_drops_unparsable [OF f, THEN conjunct2, THEN conjunct1, THEN mp])
       simp
qed

text \<open>
  C10. When the fetch of the historical document succeeds, \<^verbatim>\<open>GetUsdRatesHistory\<close>
  returns a list and no error, with the service and the requests of the fetch. When
  the document has no record, or the value of every record fails to parse, the list
  is empty (the nil slice of the source) and there is still no error.
\<close>

theorem GetUsdRatesHistory_no_error_after_fetch:
  assumes "fetchXML s (historyURL now) t_get net t_set = (Inr valCurs, s', sent)"
  shows "(\<exists>history. GetUsdRatesHistory s now t_get net t_set = (Inr history, s', sent))
       \<and> (Records valCurs = [] \<longrightarrow>
            GetUsdRatesHistory s now t_get net t_set = (Inr [], s', sent))
       \<and> ((\<forall>r \<in> set (Records valCurs). \<exists>err. parseRate (Record.Value r) = Inl err) \<longrightarrow>
            GetUsdRatesHistory s now t_get net t_set = (Inr [], s', sent))"
proof -
  have g: "GetUsdRatesHistory s now t_get net t_set
             = (Inr (List.map_filter historyPoint (Records valCurs)), s', sent)"
    using assms by (simp add: GetUsdRatesHistory_def GetUsdRatesHistory_loop_map_filter)
  have "List.map_filter historyPoint (Records valCurs) = []"
    if "\<forall>r \<in> set (Records valCurs). \<exists>err. parseRate (Record.Value r) = Inl err"
    using that by (intro map_filter_all_None) (auto simp: historyPoint_def)
  then show ?thesis by (auto simp: g List.map_filter_simps)
qed

theorem GetUsdRatesHistory_no_error_after_fetch_witness:
  "GetUsdRatesHistory NewCurrencyService example_now 0
     (Response 200 (Inr \<lparr>ValCurs.Date = [], Valutes = [],
                          Records = [\<lparr>Record.Date = ''02.01.2024'', Record.Value = ''bad''\<rparr>]\<rparr>)) 1
   = (Inr [],
      NewCurrencyService
        \<lparr>cache := Cache_Set (cache NewCurrencyService) 1
                    (historyURL example_now)
                    \<lparr>ValCurs.Date = [], Valutes = [],
                     Records = [\<lparr>Record.Date = ''02.01.2024'', Record.Value = ''bad''\<rparr>]\<rparr>
                    cacheExpiration\<rparr>,
      [historyURL example_now])"
proof -
  let ?now = "example_now"
  let ?doc = "\<lparr>ValCurs.Date = [], Valutes = [],
               Records = [\<lparr>Record.Date = ''02.01.2024'', Record.Value = ''bad''\<rparr>]\<rparr>"
  have f: "fetchXML NewCurrencyService (historyURL ?now) 0 (Response 200 (Inr ?doc)) 1
             = (Inr ?doc,
                NewCurrencyService
                  \<lparr>cache := Cache_Set (cache NewCurrencyService) 1 (historyURL ?now)
                              ?doc cacheExpiration\<rparr>,
                [historyURL ?now])"
    by (simp add: fetchXML_miss [OF NewCurrencyService_miss])
  from GetUsdRatesHistory_no_error_after_fetch [OF f] show ?thesis
    by (simp add: parseRate_bad)
qed

section \<open>The date range of the history\<close>
















































lemma validDate_month: "validDate c \<Longrightarrow> 1 \<le> month c \<and> month c \<le> 12"
  by (simp add: validDate_def)
























end
